theory Spec2Isabelle
  imports Main
begin

section \<open>JavaScript values, strings and errors\<close>

text \<open>
  JSON-representable JavaScript values. \<open>undefined\<close> is not a JSON value: where the
  source can see \<open>undefined\<close> (an optional argument, a missing property) the model
  uses \<open>option\<close>, with \<open>None\<close> for \<open>undefined\<close>.
\<close>

datatype json =
    JNull
  | JBool bool
  | JNum int
  | JStr string
  | JArr "json list"
  | JObj "(string \<times> json) list"

text \<open>
  The exceptions the modelled code can raise. \<open>Error\<close>, \<open>UnexpectedError\<close> and
  \<open>UserError\<close> are thrown by the proxy service; \<open>TypeError\<close> is what JavaScript raises
  on a property read of \<open>null\<close>; \<open>QueryFailedError\<close> is the persistence layer's
  failure (a duplicate primary key); \<open>StructuralError\<close> is the history walk's
  defensive failure.
\<close>

datatype error =
    Error string
  | UnexpectedError string
  | UserError string
  | TypeError string
  | QueryFailedError string
  | StructuralError string

text \<open>
  \<open>String.prototype.trim\<close> on strings whose code units are below 256: the white space
  and line terminator code units in that range are TAB, LF, VT, FF, CR, SPACE and
  NBSP.
\<close>

definition js_whitespace :: "char \<Rightarrow> bool" where
  "js_whitespace c = (of_char c \<in> {9, 10, 11, 12, 13, 32, 160 :: nat})"

definition trim :: "string \<Rightarrow> string" where
  "trim s = rev (dropWhile js_whitespace (rev (dropWhile js_whitespace s)))"

text \<open>JavaScript truthiness of a \<open>string | null | undefined\<close>: only a non-empty string.\<close>

fun truthy :: "string option \<Rightarrow> bool" where
  "truthy None = False"
| "truthy (Some s) = (s \<noteq> [])"

section \<open>Workflow descriptors and the agent name\<close>

record inode =
  node_id :: string
  node_name :: string
  node_type :: string
  node_parameters :: "(string \<times> json) list option"

text \<open>\<open>wf_nodes\<close> is \<open>Object.values(workflow.nodes)\<close>, in that order.\<close>

record workflow =
  wf_id :: "string option"
  wf_name :: "string option"
  wf_nodes :: "inode list"

text \<open>
  The turn-based revision imports the node-type constants \<open>CHAT_TRIGGER_NODE_TYPE\<close>
  and \<open>CHAT_HUB_MEMORY_TYPE\<close> from \<open>n8n-workflow\<close>, whose declarations are not among
  the sources; the parent-message revision spells the two strings out as literals,
  and the constants are given these values.
\<close>

definition CHAT_TRIGGER_NODE_TYPE :: string where
  "CHAT_TRIGGER_NODE_TYPE = ''@n8n/n8n-nodes-langchain.chatTrigger''"

definition CHAT_HUB_MEMORY_TYPE :: string where
  "CHAT_HUB_MEMORY_TYPE = ''@n8n/n8n-nodes-langchain.memoryChatHub''"

definition ALLOWED_NODES :: "string list" where
  "ALLOWED_NODES = [CHAT_HUB_MEMORY_TYPE]"

definition NAME_FALLBACK :: string where
  "NAME_FALLBACK = ''Workflow Chat''"

definition isAllowedNode :: "string \<Rightarrow> bool" where
  "isAllowedNode s = (s \<in> set ALLOWED_NODES)"

text \<open>
  \<open>chatTriggerNode?.parameters?.agentName\<close>: \<open>undefined\<close> when there is no chat
  trigger node, when it has no parameters, or when the parameter is not set.
\<close>

definition agentNameParameter :: "inode option \<Rightarrow> json option" where
  "agentNameParameter chatTriggerNode =
     (case chatTriggerNode of
        None \<Rightarrow> None
      | Some n \<Rightarrow>
          (case node_parameters n of
             None \<Rightarrow> None
           | Some ps \<Rightarrow> map_of ps ''agentName''))"

definition workflowNameOrDefault :: "workflow \<Rightarrow> string" where
  "workflowNameOrDefault wfl =
     (case wf_name wfl of
        Some nm \<Rightarrow> if nm \<noteq> [] \<and> trim nm \<noteq> [] then nm else NAME_FALLBACK
      | None \<Rightarrow> NAME_FALLBACK)"

definition extractAgentName :: "workflow \<Rightarrow> string" where
  "extractAgentName wfl =
     (let chatTriggerNode = find (\<lambda>n. node_type n = CHAT_TRIGGER_NODE_TYPE) (wf_nodes wfl)
      in case agentNameParameter chatTriggerNode of
           Some (JStr s) \<Rightarrow> if trim s \<noteq> [] then s else workflowNameOrDefault wfl
         | _ \<Rightarrow> workflowNameOrDefault wfl)"

section \<open>JSON as the runtime provides it\<close>

text \<open>
  \<open>JSON.stringify\<close> and \<open>JSON.parse\<close> are built-ins of the JavaScript runtime, not code
  of the repository: the model takes them as a parameter. \<open>JSON_parse\<close> returns
  \<open>None\<close> where the built-in throws a \<open>SyntaxError\<close>.
\<close>

record json_codec =
  JSON_stringify :: "json \<Rightarrow> string"
  JSON_parse :: "string \<Rightarrow> json option"

text \<open>\<open>JSON.stringify(undefined)\<close> is \<open>undefined\<close>.\<close>

definition stringify_js :: "json_codec \<Rightarrow> json option \<Rightarrow> string option" where
  "stringify_js J v = map_option (JSON_stringify J) v"

text \<open>
  An object literal as \<open>JSON.stringify\<close> sees it: a property whose value is
  \<open>undefined\<close> is left out.
\<close>

definition object_literal :: "(string \<times> json option) list \<Rightarrow> json" where
  "object_literal kvs =
     JObj (concat (map (\<lambda>(k, v). case v of None \<Rightarrow> [] | Some x \<Rightarrow> [(k, x)]) kvs))"

text \<open>
  A property read \<open>v.k\<close>: a \<open>TypeError\<close> on \<open>null\<close>, the property's value on an
  object that has it, \<open>undefined\<close> otherwise (none of the keys read by the modelled
  code is a property of a boolean, number, string or array).
\<close>

fun property :: "json \<Rightarrow> string \<Rightarrow> error + json option" where
  "property JNull k = Inl (TypeError ''Cannot read properties of null'')"
| "property (JObj kvs) k = Inr (map_of kvs k)"
| "property _ k = Inr None"

section \<open>Persistence: chat messages, memory entries, sessions\<close>

datatype role = Human | Ai | System | Tool | OtherRole string

record chat_message =
  msg_id :: string
  msg_sessionId :: string
  msg_parentId :: "string option"
  msg_role :: role
  msg_turnId :: "string option"
  msg_createdAt :: nat

text \<open>
  A row of the memory table. \<open>mem_key\<close> is the correlation column: \<open>parentMessageId\<close>
  (\<open>string | null\<close>, so \<open>'k\<close> is \<open>string option\<close>) in the parent-message revision,
  \<open>turnId\<close> (\<open>string\<close>) in the turn-based revision.
\<close>

record 'k memory_row =
  mem_id :: string
  mem_sessionId :: string
  mem_memoryNodeId :: string
  mem_key :: 'k
  mem_role :: role
  mem_content :: string
  mem_name :: "string option"
  mem_createdAt :: nat

record chat_session =
  ses_id :: string
  ses_ownerId :: string
  ses_title :: string
  ses_lastMessageAt :: nat
  ses_tools :: "json list"
  ses_provider :: string
  ses_credentialId :: "string option"
  ses_model :: "string option"
  ses_workflowId :: "string option"
  ses_agentId :: "string option"
  ses_agentName :: string

text \<open>Every call that reaches a repository is logged, in order.\<close>

datatype 'k repo_call =
    GetManyBySessionId string
  | GetAllMemoryForNode string string
  | GetMemoryByKeys string string "'k list"
  | CreateMemoryEntry string
  | DeleteBySessionAndNode string string
  | ExistsById string string
  | CreateChatSession string

fun is_memory_query :: "'k repo_call \<Rightarrow> bool" where
  "is_memory_query (GetAllMemoryForNode _ _) = True"
| "is_memory_query (GetMemoryByKeys _ _ _) = True"
| "is_memory_query _ = False"

text \<open>
  The state outside the service: the three tables (each list in insertion order, which
  is creation order), the log of repository calls, the clock read by \<open>new Date()\<close> and
  by the store when it stamps a row, and the supply of \<open>uuid()\<close> results.
  \<open>logger.debug\<close> has no effect on this state and is left out of the model.
\<close>

record 'k world =
  messages :: "chat_message list"
  memory :: "'k memory_row list"
  sessions :: "chat_session list"
  calls :: "'k repo_call list"
  clock :: nat
  uuid_seq :: "nat \<Rightarrow> string"
  uuid_used :: nat

definition uuid :: "'k world \<Rightarrow> string \<times> 'k world" where
  "uuid w = (uuid_seq w (uuid_used w), w\<lparr>uuid_used := Suc (uuid_used w)\<rparr>)"

definition logged :: "'k repo_call \<Rightarrow> 'k world \<Rightarrow> 'k world" where
  "logged c w = w\<lparr>calls := calls w @ [c]\<rparr>"

text \<open>
  Modelled from the spec: \<open>ChatHubMessageRepository.getManyBySessionId\<close>
  (\<open>chat-message.repository\<close> is not among the sources). Section 3: the full ordered
  list of the session's chat messages.
\<close>

definition getManyBySessionId :: "string \<Rightarrow> 'k world \<Rightarrow> chat_message list \<times> 'k world" where
  "getManyBySessionId sessionId w =
     (filter (\<lambda>m. msg_sessionId m = sessionId) (messages w),
      logged (GetManyBySessionId sessionId) w)"

text \<open>
  Modelled from the spec: the queries of \<open>ChatHubMemoryRepository\<close>
  (\<open>chat-hub-memory.repository\<close> is not among the sources). Section 4.3: the reads
  filter the table by (session, node), and by the correlation ids given, and keep
  creation order; \<open>append\<close> is a single-row insert, stamped by the store; \<open>clear\<close> deletes
  the rows of one (session, node) pair.
\<close>

definition getAllMemoryForNode ::
  "string \<Rightarrow> string \<Rightarrow> 'k world \<Rightarrow> 'k memory_row list \<times> 'k world" where
  "getAllMemoryForNode sessionId memoryNodeId w =
     (filter (\<lambda>r. mem_sessionId r = sessionId \<and> mem_memoryNodeId r = memoryNodeId) (memory w),
      logged (GetAllMemoryForNode sessionId memoryNodeId) w)"

definition getMemoryByKeys ::
  "string \<Rightarrow> string \<Rightarrow> 'k list \<Rightarrow> 'k world \<Rightarrow> 'k memory_row list \<times> 'k world" where
  "getMemoryByKeys sessionId memoryNodeId ks w =
     (filter (\<lambda>r. mem_sessionId r = sessionId \<and> mem_memoryNodeId r = memoryNodeId
                   \<and> mem_key r \<in> set ks) (memory w),
      logged (GetMemoryByKeys sessionId memoryNodeId ks) w)"

definition getMemoryByParentMessageIds ::
  "string \<Rightarrow> string \<Rightarrow> string list \<Rightarrow> string option world
     \<Rightarrow> string option memory_row list \<times> string option world" where
  "getMemoryByParentMessageIds sessionId memoryNodeId humanMessageIds w =
     getMemoryByKeys sessionId memoryNodeId (map Some humanMessageIds) w"

definition getMemoryByTurnIds ::
  "string \<Rightarrow> string \<Rightarrow> string list \<Rightarrow> string world \<Rightarrow> string memory_row list \<times> string world" where
  "getMemoryByTurnIds sessionId memoryNodeId turnIds w =
     getMemoryByKeys sessionId memoryNodeId turnIds w"

definition createMemoryEntry ::
  "string \<Rightarrow> string \<Rightarrow> string \<Rightarrow> 'k \<Rightarrow> role \<Rightarrow> string \<Rightarrow> string \<Rightarrow> 'k world \<Rightarrow> 'k world" where
  "createMemoryEntry i sessionId memoryNodeId k r content nm w =
     logged (CreateMemoryEntry i)
       (w\<lparr>memory := memory w @
            [\<lparr>mem_id = i, mem_sessionId = sessionId, mem_memoryNodeId = memoryNodeId,
              mem_key = k, mem_role = r, mem_content = content, mem_name = Some nm,
              mem_createdAt = clock w\<rparr>]\<rparr>)"

definition deleteBySessionAndNode :: "string \<Rightarrow> string \<Rightarrow> 'k world \<Rightarrow> 'k world" where
  "deleteBySessionAndNode sessionId memoryNodeId w =
     logged (DeleteBySessionAndNode sessionId memoryNodeId)
       (w\<lparr>memory :=
            filter (\<lambda>r. \<not> (mem_sessionId r = sessionId \<and> mem_memoryNodeId r = memoryNodeId))
              (memory w)\<rparr>)"

text \<open>
  Modelled from the spec: the queries of \<open>ChatHubSessionRepository\<close>
  (\<open>chat-session.repository\<close> is not among the sources). Section 4.4: existence is
  checked by id, scoped to the owner. Section 3: a session id is globally unique, so
  an insert with an id in use is a duplicate-key failure and adds no row.
\<close>

definition existsById :: "string \<Rightarrow> string \<Rightarrow> 'k world \<Rightarrow> bool \<times> 'k world" where
  "existsById sessionId ownerId w =
     (list_ex (\<lambda>s. ses_id s = sessionId \<and> ses_ownerId s = ownerId) (sessions w),
      logged (ExistsById sessionId ownerId) w)"

definition createChatSession :: "chat_session \<Rightarrow> 'k world \<Rightarrow> (error + unit) \<times> 'k world" where
  "createChatSession s w =
     (if list_ex (\<lambda>t. ses_id t = ses_id s) (sessions w)
      then (Inl (QueryFailedError ''duplicate key value violates unique constraint''),
            logged (CreateChatSession (ses_id s)) w)
      else (Inr (),
            logged (CreateChatSession (ses_id s)) (w\<lparr>sessions := sessions w @ [s]\<rparr>)))"

section \<open>The message graph, the active path and the correlation ids\<close>

text \<open>
  \<open>chat-hub-history.utils\<close>, which exports \<open>buildMessageHistory\<close>,
  \<open>extractHumanMessageIds\<close> and \<open>extractTurnIds\<close>, is not among the sources: the three
  functions are modelled from the spec's sections 4.1 and 4.2.
\<close>

text \<open>
  Modelled from the spec: the index of \<open>buildMessageHistory\<close>, which is missing.
  Section 9: an index from id to node.
\<close>

definition messageIndex :: "chat_message list \<Rightarrow> string \<Rightarrow> chat_message option" where
  "messageIndex msgs = map_of (map (\<lambda>m. (msg_id m, m)) msgs)"

text \<open>
  Modelled from the spec: the default head of \<open>buildMessageHistory\<close>, which is
  missing. Section 4.1: the message with the greatest \<open>createdAt\<close>, ties broken by
  insertion order (here: the later inserted one).
\<close>

fun latestMessage :: "chat_message list \<Rightarrow> chat_message option" where
  "latestMessage [] = None"
| "latestMessage (m # ms) =
     (case latestMessage ms of
        None \<Rightarrow> Some m
      | Some l \<Rightarrow> if msg_createdAt l < msg_createdAt m then Some m else Some l)"

text \<open>
  Modelled from the spec: the walk of \<open>buildMessageHistory\<close>, which is missing. Section
  4.1: start at the head, move to \<open>parentId\<close> until null; a defensive cycle check,
  bounded by the number of messages \<open>n\<close>, fails with a structural error. The messages
  are collected head first. The spec does not say what an id without a message does:
  the walk ends there.
\<close>

definition cycleError :: error where
  "cycleError = StructuralError ''Cycle detected in message chain''"

fun walkParents ::
  "nat \<Rightarrow> (string \<Rightarrow> chat_message option) \<Rightarrow> string option \<Rightarrow> error + chat_message list" where
  "walkParents n idx None = Inr []"
| "walkParents n idx (Some i) =
     (case idx i of
        None \<Rightarrow> Inr []
      | Some m \<Rightarrow>
          (case n of
             0 \<Rightarrow> Inl cycleError
           | Suc k \<Rightarrow>
               (case walkParents k idx (msg_parentId m) of
                  Inl e \<Rightarrow> Inl e
                | Inr ms \<Rightarrow> Inr (m # ms))))"

text \<open>
  Modelled from the spec: \<open>buildMessageHistory\<close>, which is missing. Section 4.1: from
  the given head, or the default one, walk to the root, then reverse.
\<close>

definition chosenHead :: "chat_message list \<Rightarrow> string option \<Rightarrow> string option" where
  "chosenHead msgs head =
     (case head of
        Some h \<Rightarrow> Some h
      | None \<Rightarrow> map_option msg_id (latestMessage msgs))"

definition buildMessageHistory ::
  "chat_message list \<Rightarrow> string option \<Rightarrow> error + chat_message list" where
  "buildMessageHistory msgs head =
     (case walkParents (length msgs) (messageIndex msgs) (chosenHead msgs head) of
        Inl e \<Rightarrow> Inl e
      | Inr visited \<Rightarrow> Inr (rev visited))"

text \<open>
  Modelled from the spec: \<open>extractHumanMessageIds\<close> and \<open>extractTurnIds\<close>, which are
  missing. Section 4.2: the ids of the human messages on the path, and the turn ids
  of the AI messages on the path with nulls skipped; both in path order and without
  duplicates (the first occurrence is kept).
\<close>

definition dedup :: "'a list \<Rightarrow> 'a list" where
  "dedup xs = rev (remdups (rev xs))"

definition extractHumanMessageIds :: "chat_message list \<Rightarrow> string list" where
  "extractHumanMessageIds messageChain =
     dedup (map msg_id (filter (\<lambda>m. msg_role m = Human) messageChain))"

definition extractTurnIds :: "chat_message list \<Rightarrow> string list" where
  "extractTurnIds messageChain =
     dedup (concat (map (\<lambda>m. case msg_turnId m of None \<Rightarrow> [] | Some t \<Rightarrow> [t])
                        (filter (\<lambda>m. msg_role m = Ai) messageChain)))"

section \<open>The proxy service, parent-message revision\<close>

text \<open>
  \<open>chat-hub-proxy.service.ts\<close>. The object returned by \<open>makeChatHubOperations\<close> closes
  over its arguments and over two mutable variables, \<open>resolvedParentMessageId\<close> and
  \<open>parentMessageIdResolved\<close>: the handle is the record of the captured values, and an
  operation that may assign the two variables returns the handle it leaves behind.
\<close>

record legacy_handle =
  lh_sessionId :: string
  lh_memoryNodeId :: string
  lh_excludeCurrentFromMemory :: bool
  lh_ownerId :: string
  lh_workflowId :: "string option"
  lh_agentName :: string
  lh_resolvedParentMessageId :: "string option"
  lh_parentMessageIdResolved :: bool

text \<open>\<open>ChatHubMemoryEntry\<close>, what \<open>getMemory\<close> hands to the memory node.\<close>

record entry =
  e_id :: string
  e_role :: role
  e_content :: string
  e_name :: "string option"
  e_createdAt :: nat

definition toEntry :: "'k memory_row \<Rightarrow> entry" where
  "toEntry r =
     \<lparr>e_id = mem_id r, e_role = mem_role r, e_content = mem_content r, e_name = mem_name r,
      e_createdAt = mem_createdAt r\<rparr>"

definition makeChatHubOperations_legacy ::
  "string \<Rightarrow> string \<Rightarrow> string option \<Rightarrow> bool \<Rightarrow> string \<Rightarrow> string option \<Rightarrow> string
     \<Rightarrow> legacy_handle" where
  "makeChatHubOperations_legacy sessionId memoryNodeId initialParentMessageId
       excludeCurrentFromMemory ownerId workflowId agentName =
     \<lparr>lh_sessionId = sessionId, lh_memoryNodeId = memoryNodeId,
      lh_excludeCurrentFromMemory = excludeCurrentFromMemory, lh_ownerId = ownerId,
      lh_workflowId = workflowId, lh_agentName = agentName,
      lh_resolvedParentMessageId = initialParentMessageId,
      lh_parentMessageIdResolved = (initialParentMessageId \<noteq> None)\<rparr>"

definition getChatHubProxy_legacy ::
  "workflow \<Rightarrow> inode \<Rightarrow> string \<Rightarrow> string \<Rightarrow> string option \<Rightarrow> bool \<Rightarrow> string option
     \<Rightarrow> error + legacy_handle" where
  "getChatHubProxy_legacy wfl node sessionId memoryNodeId parentMessageId
       excludeCurrentFromMemory ownerId =
     (if \<not> isAllowedNode (node_type node)
      then Inl (Error ''This proxy is only available for Chat Hub Memory nodes'')
      else case ownerId of
             None \<Rightarrow> Inl (Error ''Owner ID is required for Chat Hub Memory. For manual executions, ensure the user context is available.'')
           | Some ow \<Rightarrow>
               if ow = []
               then Inl (Error ''Owner ID is required for Chat Hub Memory. For manual executions, ensure the user context is available.'')
               else Inr (makeChatHubOperations_legacy sessionId memoryNodeId parentMessageId
                           excludeCurrentFromMemory ow (wf_id wfl) (extractAgentName wfl)))"

definition resolveParentMessageId ::
  "legacy_handle \<Rightarrow> string option world
     \<Rightarrow> (error + string option) \<times> legacy_handle \<times> string option world" where
  "resolveParentMessageId h w =
     (if lh_parentMessageIdResolved h then (Inr (lh_resolvedParentMessageId h), h, w)
      else
        let (chatMessages, w1) = getManyBySessionId (lh_sessionId h) w
        in case buildMessageHistory chatMessages None of
             Inl e \<Rightarrow> (Inl e, h, w1)
           | Inr messageChain \<Rightarrow>
               let humanMessageIds = extractHumanMessageIds messageChain;
                   resolved = (if length humanMessageIds > 0
                               then Some (last humanMessageIds) else None)
               in (Inr resolved,
                   h\<lparr>lh_resolvedParentMessageId := resolved,
                     lh_parentMessageIdResolved := True\<rparr>,
                   w1))"

text \<open>
  The block of \<open>getMemory\<close> that adjusts \<open>humanMessageIds\<close> in place: on regeneration
  \<open>indexOf\<close> and \<open>splice(index, 1)\<close> remove the first occurrence of the current
  \<open>parentMessageId\<close>; otherwise it is pushed when \<open>includes\<close> does not find it.
\<close>

definition adjustHumanMessageIds :: "bool \<Rightarrow> string \<Rightarrow> string list \<Rightarrow> string list" where
  "adjustHumanMessageIds excludeCurrentFromMemory parentMessageId humanMessageIds =
     (if excludeCurrentFromMemory then remove1 parentMessageId humanMessageIds
      else if parentMessageId \<notin> set humanMessageIds
           then humanMessageIds @ [parentMessageId]
           else humanMessageIds)"

definition loadAllMemory_legacy ::
  "legacy_handle \<Rightarrow> string option world
     \<Rightarrow> (error + entry list) \<times> legacy_handle \<times> string option world" where
  "loadAllMemory_legacy h w =
     (let (memoryEntries, w1) = getAllMemoryForNode (lh_sessionId h) (lh_memoryNodeId h) w
      in (Inr (map toEntry memoryEntries), h, w1))"

definition loadBranchMemory_legacy ::
  "string \<Rightarrow> legacy_handle \<Rightarrow> string option world
     \<Rightarrow> (error + entry list) \<times> legacy_handle \<times> string option world" where
  "loadBranchMemory_legacy parentMessageId h w =
     (let (chatMessages, w1) = getManyBySessionId (lh_sessionId h) w
      in case buildMessageHistory chatMessages (Some parentMessageId) of
           Inl e \<Rightarrow> (Inl e, h, w1)
         | Inr messageChain \<Rightarrow>
             let humanMessageIds =
                   adjustHumanMessageIds (lh_excludeCurrentFromMemory h) parentMessageId
                     (extractHumanMessageIds messageChain)
             in if length humanMessageIds = 0 then (Inr [], h, w1)
                else
                  let (memoryEntries, w2) =
                        getMemoryByParentMessageIds (lh_sessionId h) (lh_memoryNodeId h)
                          humanMessageIds w1
                  in (Inr (map toEntry memoryEntries), h, w2))"

definition getMemory_legacy ::
  "legacy_handle \<Rightarrow> string option world
     \<Rightarrow> (error + entry list) \<times> legacy_handle \<times> string option world" where
  "getMemory_legacy h w =
     (case resolveParentMessageId h w of
        (Inl e, h1, w1) \<Rightarrow> (Inl e, h1, w1)
      | (Inr parentMessageId, h1, w1) \<Rightarrow>
          (case parentMessageId of
             None \<Rightarrow> loadAllMemory_legacy h1 w1
           | Some p \<Rightarrow>
               if p \<noteq> [] then loadBranchMemory_legacy p h1 w1
               else loadAllMemory_legacy h1 w1))"




definition toolContent :: "json_codec \<Rightarrow> string \<Rightarrow> string \<Rightarrow> json option \<Rightarrow> json option \<Rightarrow> string" where
  "toolContent J toolCallId toolName toolInput toolOutput =
     JSON_stringify J
       (object_literal
          [(''toolCallId'', Some (JStr toolCallId)), (''toolName'', Some (JStr toolName)),
           (''toolInput'', toolInput), (''toolOutput'', toolOutput)])"



definition newSession ::
  "string \<Rightarrow> string \<Rightarrow> string \<Rightarrow> nat \<Rightarrow> string option \<Rightarrow> string \<Rightarrow> chat_session" where
  "newSession sessionId ownerId sessionTitle now workflowId agentName =
     \<lparr>ses_id = sessionId, ses_ownerId = ownerId, ses_title = sessionTitle,
      ses_lastMessageAt = now, ses_tools = [], ses_provider = ''n8n'',
      ses_credentialId = None, ses_model = None, ses_workflowId = workflowId,
      ses_agentId = None, ses_agentName = agentName\<rparr>"

text \<open>
  \<open>ensureSession\<close> awaits \<open>existsById\<close> and then \<open>createChatSession\<close>. Other callers
  can run at the suspension point between the two: \<open>between\<close> is what they do to the
  tables there, and the operation run alone is the case where they do nothing.
\<close>

definition ensureSession_legacy_interleaved ::
  "(string option world \<Rightarrow> string option world) \<Rightarrow> legacy_handle \<Rightarrow> string option
     \<Rightarrow> string option world \<Rightarrow> (error + unit) \<times> string option world" where
  "ensureSession_legacy_interleaved between h title w =
     (let (ex, w1) = existsById (lh_sessionId h) (lh_ownerId h) w;
          w2 = between w1
      in if \<not> ex
         then
           let sessionTitle = (case title of
                                 None \<Rightarrow> lh_agentName h
                               | Some t \<Rightarrow> if t \<noteq> [] then t else lh_agentName h)
           in createChatSession
                (newSession (lh_sessionId h) (lh_ownerId h) sessionTitle (clock w2)
                   (lh_workflowId h) (lh_agentName h)) w2
         else (Inr (), w2))"

definition ensureSession_legacy ::
  "legacy_handle \<Rightarrow> string option \<Rightarrow> string option world
     \<Rightarrow> (error + unit) \<times> string option world" where
  "ensureSession_legacy h title w = ensureSession_legacy_interleaved (\<lambda>x. x) h title w"

section \<open>The proxy service, turn-based revision\<close>

text \<open>
  The revision of \<open>ChatHubProxyService\<close> that correlates by \<open>turnId\<close> in place of
  \<open>parentMessageId\<close>. \<open>makeChatHubOperations\<close> evaluates
  \<open>providedTurnId ?? uuid()\<close> once, when the handle is made; the handle has no mutable
  variable.
\<close>

record turn_handle =
  th_sessionId :: string
  th_memoryNodeId :: string
  th_providedTurnId :: "string option"
  th_turnId :: string
  th_ownerId :: string
  th_workflowId :: "string option"
  th_agentName :: string

definition makeChatHubOperations_turn ::
  "string \<Rightarrow> string \<Rightarrow> string option \<Rightarrow> string \<Rightarrow> string option \<Rightarrow> string \<Rightarrow> string world
     \<Rightarrow> turn_handle \<times> string world" where
  "makeChatHubOperations_turn sessionId memoryNodeId providedTurnId ownerId workflowId
       agentName w =
     (let (turnId, w1) = (case providedTurnId of
                            Some t \<Rightarrow> (t, w)
                          | None \<Rightarrow> uuid w)
      in (\<lparr>th_sessionId = sessionId, th_memoryNodeId = memoryNodeId,
           th_providedTurnId = providedTurnId, th_turnId = turnId, th_ownerId = ownerId,
           th_workflowId = workflowId, th_agentName = agentName\<rparr>, w1))"

definition getChatHubProxy_turn ::
  "workflow \<Rightarrow> inode \<Rightarrow> string \<Rightarrow> string \<Rightarrow> string option \<Rightarrow> string option \<Rightarrow> string world
     \<Rightarrow> (error + turn_handle) \<times> string world" where
  "getChatHubProxy_turn wfl node sessionId memoryNodeId turnId ownerId w =
     (if \<not> isAllowedNode (node_type node)
      then (Inl (UnexpectedError ''This proxy is only available for Chat Hub Memory nodes''), w)
      else case ownerId of
             None \<Rightarrow> (Inl (UserError ''Chat Hub Memory is only available on Chat hub and manual executions.''), w)
           | Some ow \<Rightarrow>
               if ow = []
               then (Inl (UserError ''Chat Hub Memory is only available on Chat hub and manual executions.''), w)
               else
                 let (h, w1) = makeChatHubOperations_turn sessionId memoryNodeId turnId ow
                                 (wf_id wfl) (extractAgentName wfl) w
                 in (Inr h, w1))"

definition getMemory_turn ::
  "turn_handle \<Rightarrow> string world \<Rightarrow> (error + entry list) \<times> string world" where
  "getMemory_turn h w =
     (case th_providedTurnId h of
        None \<Rightarrow>
          let (memoryEntries, w1) = getAllMemoryForNode (th_sessionId h) (th_memoryNodeId h) w
          in (Inr (map toEntry memoryEntries), w1)
      | Some _ \<Rightarrow>
          let (chatMessages, w1) = getManyBySessionId (th_sessionId h) w
          in if length chatMessages = 0 then (Inr [], w1)
             else
               (case buildMessageHistory chatMessages None of
                  Inl e \<Rightarrow> (Inl e, w1)
                | Inr messageChain \<Rightarrow>
                    let turnIds = extractTurnIds messageChain
                    in if length turnIds = 0 then (Inr [], w1)
                       else
                         let (memoryEntries, w2) =
                               getMemoryByTurnIds (th_sessionId h) (th_memoryNodeId h) turnIds w1
                         in (Inr (map toEntry memoryEntries), w2)))"

definition addHumanMessage_turn :: "string \<Rightarrow> turn_handle \<Rightarrow> string world \<Rightarrow> string world" where
  "addHumanMessage_turn content h w =
     (let (i, w1) = uuid w
      in createMemoryEntry i (th_sessionId h) (th_memoryNodeId h) (th_turnId h)
           Human content ''User'' w1)"

definition addAIMessage_turn :: "string \<Rightarrow> turn_handle \<Rightarrow> string world \<Rightarrow> string world" where
  "addAIMessage_turn content h w =
     (let (i, w1) = uuid w
      in createMemoryEntry i (th_sessionId h) (th_memoryNodeId h) (th_turnId h)
           Ai content ''AI'' w1)"

definition addToolMessage_turn ::
  "json_codec \<Rightarrow> string \<Rightarrow> string \<Rightarrow> json option \<Rightarrow> json option \<Rightarrow> turn_handle
     \<Rightarrow> string world \<Rightarrow> string world" where
  "addToolMessage_turn J toolCallId toolName toolInput toolOutput h w =
     (let (i, w1) = uuid w;
          content = toolContent J toolCallId toolName toolInput toolOutput
      in createMemoryEntry i (th_sessionId h) (th_memoryNodeId h) (th_turnId h)
           Tool content toolName w1)"

definition clearMemory_turn :: "turn_handle \<Rightarrow> string world \<Rightarrow> string world" where
  "clearMemory_turn h w = deleteBySessionAndNode (th_sessionId h) (th_memoryNodeId h) w"

definition ensureSession_turn_interleaved ::
  "(string world \<Rightarrow> string world) \<Rightarrow> turn_handle \<Rightarrow> string world
     \<Rightarrow> (error + unit) \<times> string world" where
  "ensureSession_turn_interleaved between h w =
     (let (ex, w1) = existsById (th_sessionId h) (th_ownerId h) w;
          w2 = between w1
      in if \<not> ex
         then
           let sessionTitle = th_agentName h
           in createChatSession
                (newSession (th_sessionId h) (th_ownerId h) sessionTitle (clock w2)
                   (th_workflowId h) (th_agentName h)) w2
         else (Inr (), w2))"

definition ensureSession_turn :: "turn_handle \<Rightarrow> string world \<Rightarrow> (error + unit) \<times> string world" where
  "ensureSession_turn h w = ensureSession_turn_interleaved (\<lambda>x. x) h w"

section \<open>The LangChain adapter\<close>

text \<open>
  \<open>ChatHubMessageHistory.ts\<close>. The adapter talks to the service through the interface
  \<open>IChatHubMemoryService\<close>: a record of operations over the service's state \<open>'s\<close>.
\<close>

record 's memory_service =
  svc_getMemory :: "'s \<Rightarrow> (error + entry list) \<times> 's"
  svc_addHumanMessage :: "string \<Rightarrow> 's \<Rightarrow> (error + unit) \<times> 's"
  svc_addAIMessage :: "string \<Rightarrow> 's \<Rightarrow> (error + unit) \<times> 's"
  svc_addToolMessage :: "string \<Rightarrow> string \<Rightarrow> json option \<Rightarrow> json option \<Rightarrow> 's \<Rightarrow> (error + unit) \<times> 's"
  svc_clearMemory :: "'s \<Rightarrow> (error + unit) \<times> 's"

definition turnService :: "json_codec \<Rightarrow> turn_handle \<Rightarrow> string world memory_service" where
  "turnService J h =
     \<lparr>svc_getMemory = getMemory_turn h,
      svc_addHumanMessage = (\<lambda>content w. (Inr (), addHumanMessage_turn content h w)),
      svc_addAIMessage = (\<lambda>content w. (Inr (), addAIMessage_turn content h w)),
      svc_addToolMessage = (\<lambda>toolCallId toolName toolInput toolOutput w.
         (Inr (), addToolMessage_turn J toolCallId toolName toolInput toolOutput h w)),
      svc_clearMemory = (\<lambda>w. (Inr (), clearMemory_turn h w))\<rparr>"


text \<open>
  A message handed to \<open>addMessage\<close>, with the fields LangChain declares: the content is
  a string or a structured value, \<open>tool_calls\<close> may be absent.
\<close>

datatype base_message =
    HumanMessage json "string option"
  | AIMessage json "string option" "json list option"
  | SystemMessage json
  | ToolMessage json string "string option"
  | OtherMessage json

text \<open>
  The constructor calls of \<open>convertToLangChainMessage\<close>, with the arguments as
  computed: \<open>NewAIMessage content name tool_calls\<close> and
  \<open>NewToolMessage content tool_call_id name\<close>.
\<close>

datatype lc_message =
    NewHumanMessage string "string option"
  | NewAIMessage "string option" "string option" json
  | NewSystemMessage string
  | NewToolMessage "string option" "json option" "json option"

definition aiFallback :: "string \<Rightarrow> string option \<times> json" where
  "aiFallback content = (Some content, JArr [])"

text \<open>
  The whole body is inside \<open>try\<close>: a failing \<open>JSON.parse\<close> and a \<open>TypeError\<close> on
  reading a property of \<open>null\<close> both end in the fallback.
\<close>

definition parseAIMessageContent :: "json_codec \<Rightarrow> string \<Rightarrow> string option \<times> json" where
  "parseAIMessageContent J content =
     (case JSON_parse J content of
        None \<Rightarrow> aiFallback content
      | Some parsed \<Rightarrow>
          (case property parsed ''content'' of
             Inl _ \<Rightarrow> aiFallback content
           | Inr pc \<Rightarrow>
               (case property parsed ''toolCalls'' of
                  Inl _ \<Rightarrow> aiFallback content
                | Inr tc \<Rightarrow>
                    ((case pc of
                        Some (JStr s) \<Rightarrow> Some s
                      | _ \<Rightarrow> stringify_js J pc),
                     (case tc of
                        None \<Rightarrow> JArr []
                      | Some JNull \<Rightarrow> JArr []
                      | Some v \<Rightarrow> v)))))"

definition parseToolMessageContent :: "json_codec \<Rightarrow> string \<Rightarrow> json" where
  "parseToolMessageContent J content =
     (case JSON_parse J content of
        Some parsed \<Rightarrow> parsed
      | None \<Rightarrow>
          JObj [(''toolCallId'', JStr ''unknown''), (''toolName'', JStr ''unknown''),
                (''toolInput'', JObj []), (''toolOutput'', JStr content)])"

definition convertToLangChainMessage :: "json_codec \<Rightarrow> entry \<Rightarrow> error + lc_message" where
  "convertToLangChainMessage J e =
     (case e_role e of
        Human \<Rightarrow> Inr (NewHumanMessage (e_content e) (e_name e))
      | Ai \<Rightarrow>
          (let aiData = parseAIMessageContent J (e_content e)
           in Inr (NewAIMessage (fst aiData) (e_name e) (snd aiData)))
      | System \<Rightarrow> Inr (NewSystemMessage (e_content e))
      | Tool \<Rightarrow>
          (let toolData = parseToolMessageContent J (e_content e)
           in case property toolData ''toolOutput'' of
                Inl err \<Rightarrow> Inl err
              | Inr toolOutput \<Rightarrow>
                  (case property toolData ''toolCallId'' of
                     Inl err \<Rightarrow> Inl err
                   | Inr toolCallId \<Rightarrow>
                       (case property toolData ''toolName'' of
                          Inl err \<Rightarrow> Inl err
                        | Inr toolName \<Rightarrow>
                            Inr (NewToolMessage (stringify_js J toolOutput) toolCallId toolName))))
      | OtherRole _ \<Rightarrow> Inr (NewSystemMessage (e_content e)))"

text \<open>\<open>entries.map(...)\<close>: left to right, the first exception ends the call.\<close>

fun convertAll :: "json_codec \<Rightarrow> entry list \<Rightarrow> error + lc_message list" where
  "convertAll J [] = Inr []"
| "convertAll J (e # es) =
     (case convertToLangChainMessage J e of
        Inl err \<Rightarrow> Inl err
      | Inr m \<Rightarrow>
          (case convertAll J es of
             Inl err \<Rightarrow> Inl err
           | Inr ms \<Rightarrow> Inr (m # ms)))"

definition getMessages ::
  "json_codec \<Rightarrow> 's memory_service \<Rightarrow> 's \<Rightarrow> (error + lc_message list) \<times> 's" where
  "getMessages J svc s =
     (case svc_getMemory svc s of
        (Inl err, s1) \<Rightarrow> (Inl err, s1)
      | (Inr entries, s1) \<Rightarrow> (convertAll J entries, s1))"

definition messageContent :: "base_message \<Rightarrow> json" where
  "messageContent m =
     (case m of
        HumanMessage c _ \<Rightarrow> c
      | AIMessage c _ _ \<Rightarrow> c
      | SystemMessage c \<Rightarrow> c
      | ToolMessage c _ _ \<Rightarrow> c
      | OtherMessage c \<Rightarrow> c)"

definition storedAIMessage :: "string \<Rightarrow> json list option \<Rightarrow> json" where
  "storedAIMessage content tool_calls =
     object_literal
       [(''content'', Some (JStr content)),
        (''toolCalls'', Some (JArr (case tool_calls of None \<Rightarrow> [] | Some t \<Rightarrow> t)))]"

definition addMessage ::
  "json_codec \<Rightarrow> 's memory_service \<Rightarrow> base_message \<Rightarrow> 's \<Rightarrow> (error + unit) \<times> 's" where
  "addMessage J svc message s =
     (let content = (case messageContent message of
                       JStr c \<Rightarrow> c
                     | v \<Rightarrow> JSON_stringify J v)
      in case message of
           HumanMessage _ _ \<Rightarrow> svc_addHumanMessage svc content s
         | AIMessage _ _ tool_calls \<Rightarrow>
             svc_addAIMessage svc (JSON_stringify J (storedAIMessage content tool_calls)) s
         | ToolMessage c tool_call_id nm \<Rightarrow>
             svc_addToolMessage svc tool_call_id
               (case nm of None \<Rightarrow> ''unknown'' | Some n \<Rightarrow> n) (Some (JObj [])) (Some c) s
         | _ \<Rightarrow> (Inr (), s))"

section \<open>Sequences of writes through one handle\<close>

datatype write_op =
    AddHumanMessage string
  | AddAIMessage string
  | AddToolMessage string string "json option" "json option"

fun write_turn :: "json_codec \<Rightarrow> turn_handle \<Rightarrow> write_op \<Rightarrow> string world \<Rightarrow> string world" where
  "write_turn J h (AddHumanMessage content) w = addHumanMessage_turn content h w"
| "write_turn J h (AddAIMessage content) w = addAIMessage_turn content h w"
| "write_turn J h (AddToolMessage toolCallId toolName toolInput toolOutput) w =
     addToolMessage_turn J toolCallId toolName toolInput toolOutput h w"

fun writes_turn :: "json_codec \<Rightarrow> turn_handle \<Rightarrow> write_op list \<Rightarrow> string world \<Rightarrow> string world" where
  "writes_turn J h [] w = w"
| "writes_turn J h (x # xs) w = writes_turn J h xs (write_turn J h x w)"

section \<open>The session title in the spec's words\<close>

text \<open>
  The title the spec gives a created session, written from its sentence: the
  caller-given title when one is provided (a non-empty string), otherwise the chat
  trigger's non-blank \<open>agentName\<close>, otherwise the workflow's non-blank name, otherwise
  the fixed default. These definitions follow the spec and are compared with
  \<open>extractAgentName\<close> and \<open>ensureSession\<close> below.
\<close>

definition providedTitle :: "string option \<Rightarrow> string option" where
  "providedTitle title =
     (case title of None \<Rightarrow> None | Some t \<Rightarrow> if t = [] then None else Some t)"

definition chatTriggerAgentName :: "workflow \<Rightarrow> string option" where
  "chatTriggerAgentName wfl =
     (case find (\<lambda>n. node_type n = CHAT_TRIGGER_NODE_TYPE) (wf_nodes wfl) of
        None \<Rightarrow> None
      | Some n \<Rightarrow>
          (case node_parameters n of
             None \<Rightarrow> None
           | Some ps \<Rightarrow>
               (case map_of ps ''agentName'' of
                  Some (JStr s) \<Rightarrow> if trim s = [] then None else Some s
                | _ \<Rightarrow> None)))"

definition nonBlankWorkflowName :: "workflow \<Rightarrow> string option" where
  "nonBlankWorkflowName wfl =
     (case wf_name wfl of None \<Rightarrow> None | Some nm \<Rightarrow> if trim nm = [] then None else Some nm)"

definition specSessionTitle :: "string option \<Rightarrow> workflow \<Rightarrow> string" where
  "specSessionTitle title wfl =
     (case providedTitle title of
        Some t \<Rightarrow> t
      | None \<Rightarrow>
          (case chatTriggerAgentName wfl of
             Some a \<Rightarrow> a
           | None \<Rightarrow>
               (case nonBlankWorkflowName wfl of
                  Some nm \<Rightarrow> nm
                | None \<Rightarrow> ''Workflow Chat'')))"

section \<open>Concrete inputs\<close>

definition emptyWorld :: "'k world" where
  "emptyWorld =
     \<lparr>messages = [], memory = [], sessions = [], calls = [], clock = 0,
      uuid_seq = (\<lambda>n. ''uuid-'' @ replicate n CHR ''i''), uuid_used = 0\<rparr>"

definition memoryNode :: inode where
  "memoryNode =
     \<lparr>node_id = ''n2'', node_name = ''Memory'',
      node_type = ''@n8n/n8n-nodes-langchain.memoryChatHub'', node_parameters = Some []\<rparr>"

definition setNode :: inode where
  "setNode =
     \<lparr>node_id = ''n3'', node_name = ''Edit Fields'', node_type = ''n8n-nodes-base.set'',
      node_parameters = Some []\<rparr>"

definition supportWorkflow :: workflow where
  "supportWorkflow =
     \<lparr>wf_id = Some ''wf1'', wf_name = Some ''Support flow'',
      wf_nodes =
        [\<lparr>node_id = ''n1'', node_name = ''Chat'',
          node_type = ''@n8n/n8n-nodes-langchain.chatTrigger'',
          node_parameters = Some [(''agentName'', JStr ''Support Bot'')]\<rparr>,
         memoryNode, setNode]\<rparr>"

definition supportHandle :: legacy_handle where
  "supportHandle =
     makeChatHubOperations_legacy ''s1'' ''n2'' None False ''u1'' (Some ''wf1'') ''Support Bot''"

definition humanMsg1 :: chat_message where
  "humanMsg1 = \<lparr>msg_id = ''h1'', msg_sessionId = ''s1'', msg_parentId = None, msg_role = Human,
      msg_turnId = None, msg_createdAt = 1\<rparr>"
definition aiMsg1 :: chat_message where
  "aiMsg1 = \<lparr>msg_id = ''a1'', msg_sessionId = ''s1'', msg_parentId = Some ''h1'', msg_role = Ai,
      msg_turnId = Some ''t1'', msg_createdAt = 2\<rparr>"
definition humanMsg2 :: chat_message where
  "humanMsg2 = \<lparr>msg_id = ''h2'', msg_sessionId = ''s1'', msg_parentId = Some ''a1'', msg_role = Human,
      msg_turnId = None, msg_createdAt = 3\<rparr>"
definition aiMsg2 :: chat_message where
  "aiMsg2 = \<lparr>msg_id = ''a2'', msg_sessionId = ''s1'', msg_parentId = Some ''h2'', msg_role = Ai,
      msg_turnId = Some ''t2'', msg_createdAt = 4\<rparr>"

definition withMessages :: "chat_message list \<Rightarrow> 'k world" where
  "withMessages ms = emptyWorld\<lparr>messages := ms\<rparr>"

definition turnHandle :: "string option \<Rightarrow> turn_handle" where
  "turnHandle providedTurnId =
     \<lparr>th_sessionId = ''s1'', th_memoryNodeId = ''n2'', th_providedTurnId = providedTurnId,
      th_turnId = (case providedTurnId of Some t \<Rightarrow> t | None \<Rightarrow> ''uuid-''), th_ownerId = ''u1'',
      th_workflowId = Some ''wf1'', th_agentName = ''Support Bot''\<rparr>"

definition legacyHandle :: "string option \<Rightarrow> bool \<Rightarrow> legacy_handle" where
  "legacyHandle parentMessageId excludeCurrentFromMemory =
     makeChatHubOperations_legacy ''s1'' ''n2'' parentMessageId excludeCurrentFromMemory ''u1''
       (Some ''wf1'') ''Support Bot''"


definition manualHandle :: turn_handle where
  "manualHandle =
     fst (makeChatHubOperations_turn ''s1'' ''n2'' None ''u1'' (Some ''wf1'') ''Support Bot''
            emptyWorld)"

definition manualWorld :: "string world" where
  "manualWorld =
     addHumanMessage_turn ''hello'' manualHandle
       (snd (makeChatHubOperations_turn ''s1'' ''n2'' None ''u1'' (Some ''wf1'')
               ''Support Bot'' emptyWorld))"

definition memoryRow :: "string \<Rightarrow> 'k \<Rightarrow> role \<Rightarrow> string \<Rightarrow> 'k memory_row" where
  "memoryRow i k r content =
     \<lparr>mem_id = i, mem_sessionId = ''s1'', mem_memoryNodeId = ''n2'', mem_key = k,
      mem_role = r, mem_content = content, mem_name = None, mem_createdAt = 0\<rparr>"

definition twoTurnWorld :: "string option world" where
  "twoTurnWorld =
     emptyWorld
       \<lparr>messages := [humanMsg1, aiMsg1, humanMsg2, aiMsg2],
        memory := [memoryRow ''m1'' (Some ''h1'') Human ''first question'',
                   memoryRow ''m2'' (Some ''h1'') Ai ''first answer'',
                   memoryRow ''m3'' (Some ''h2'') Human ''second question'',
                   memoryRow ''m4'' (Some ''h2'') Ai ''second answer'']\<rparr>"

definition manualLegacyWorld :: "string option world" where
  "manualLegacyWorld = emptyWorld\<lparr>memory := [memoryRow ''m1'' None Ai ''earlier answer'']\<rparr>"

definition secondMemoryHandle :: turn_handle where
  "secondMemoryHandle = (turnHandle (Some ''t1''))\<lparr>th_memoryNodeId := ''n4''\<rparr>"

definition secondCaller :: "string world \<Rightarrow> string world" where
  "secondCaller w = snd (ensureSession_turn secondMemoryHandle w)"

definition secondCaller_legacy :: "string option world \<Rightarrow> string option world" where
  "secondCaller_legacy w = snd (ensureSession_legacy (legacyHandle (Some ''h1'') False) None w)"

section \<open>A reference JSON codec for the concrete inputs\<close>

text \<open>
  The theorems about the adapter hold for any \<open>json_codec\<close>. To run them on concrete
  entries the parameter is instantiated with this codec: a printer of compact JSON
  text (no white space, double quote and backslash escaped, integers in decimal) and a recursive
  descent parser of the same texts, whose fuel is the length of the input.
\<close>

definition dquote :: char where "dquote = CHR 0x22"
definition backslash :: char where "backslash = CHR 0x5C"

fun escape :: "string \<Rightarrow> string" where
  "escape [] = []"
| "escape (c # cs) =
     (if c = dquote \<or> c = backslash then backslash # c # escape cs else c # escape cs)"

definition quoted :: "string \<Rightarrow> string" where
  "quoted s = dquote # escape s @ [dquote]"

definition digit :: "nat \<Rightarrow> char" where
  "digit d = char_of (48 + d)"

function digits :: "nat \<Rightarrow> string" where
  "digits n = (if n < 10 then [digit n] else digits (n div 10) @ [digit (n mod 10)])"
  by pat_completeness auto
termination
  by (relation "measure id") auto

declare digits.simps [simp del]

fun stringify :: "json \<Rightarrow> string"
  and stringify_elements :: "json list \<Rightarrow> string"
  and stringify_members :: "(string \<times> json) list \<Rightarrow> string" where
  "stringify JNull = ''null''"
| "stringify (JBool b) = (if b then ''true'' else ''false'')"
| "stringify (JNum i) = (if i < 0 then CHR ''-'' # digits (nat (- i)) else digits (nat i))"
| "stringify (JStr s) = quoted s"
| "stringify (JArr vs) = ''['' @ stringify_elements vs @ '']''"
| "stringify (JObj kvs) = ''{'' @ stringify_members kvs @ ''}''"
| "stringify_elements [] = []"
| "stringify_elements [v] = stringify v"
| "stringify_elements (v # u # vs) = stringify v @ '','' @ stringify_elements (u # vs)"
| "stringify_members [] = []"
| "stringify_members [(k, v)] = quoted k @ '':'' @ stringify v"
| "stringify_members ((k, v) # m # kvs) =
     quoted k @ '':'' @ stringify v @ '','' @ stringify_members (m # kvs)"

fun parse_string :: "string \<Rightarrow> (string \<times> string) option" where
  "parse_string [] = None"
| "parse_string (c # cs) =
     (if c = dquote then Some ([], cs)
      else if c = backslash then
        (case cs of
           [] \<Rightarrow> None
         | d # ds \<Rightarrow>
             if d = dquote \<or> d = backslash
             then map_option (\<lambda>(s, r). (d # s, r)) (parse_string ds)
             else None)
      else map_option (\<lambda>(s, r). (c # s, r)) (parse_string cs))"

definition is_digit :: "char \<Rightarrow> bool" where
  "is_digit c = (48 \<le> (of_char c :: nat) \<and> (of_char c :: nat) \<le> 57)"

definition number_of_digits :: "string \<Rightarrow> nat" where
  "number_of_digits ds = foldl (\<lambda>n c. 10 * n + (of_char c - 48)) 0 ds"

definition parse_digits :: "int \<Rightarrow> string \<Rightarrow> (json \<times> string) option" where
  "parse_digits sign body =
     (let ds = takeWhile is_digit body
      in if ds = [] then None
         else Some (JNum (sign * int (number_of_digits ds)), dropWhile is_digit body))"

definition parse_number :: "string \<Rightarrow> (json \<times> string) option" where
  "parse_number cs =
     (case cs of
        [] \<Rightarrow> None
      | c # r \<Rightarrow> if c = CHR ''-'' then parse_digits (- 1) r else parse_digits 1 cs)"

fun expect :: "string \<Rightarrow> string \<Rightarrow> string option" where
  "expect [] cs = Some cs"
| "expect (p # ps) [] = None"
| "expect (p # ps) (c # cs) = (if p = c then expect ps cs else None)"

fun parse_value :: "nat \<Rightarrow> string \<Rightarrow> (json \<times> string) option"
  and parse_elements :: "nat \<Rightarrow> string \<Rightarrow> (json list \<times> string) option"
  and parse_members :: "nat \<Rightarrow> string \<Rightarrow> ((string \<times> json) list \<times> string) option" where
  "parse_value 0 cs = None"
| "parse_value (Suc n) [] = None"
| "parse_value (Suc n) (c # cs) =
     (if c = CHR ''n'' then map_option (Pair JNull) (expect ''ull'' cs)
      else if c = CHR ''t'' then map_option (Pair (JBool True)) (expect ''rue'' cs)
      else if c = CHR ''f'' then map_option (Pair (JBool False)) (expect ''alse'' cs)
      else if c = dquote then map_option (\<lambda>(s, r). (JStr s, r)) (parse_string cs)
      else if c = CHR ''[''
           then (case cs of
                   [] \<Rightarrow> None
                 | d # ds \<Rightarrow>
                     if d = CHR '']'' then Some (JArr [], ds)
                     else map_option (\<lambda>(vs, r). (JArr vs, r)) (parse_elements n cs))
      else if c = CHR ''{''
           then (case cs of
                   [] \<Rightarrow> None
                 | d # ds \<Rightarrow>
                     if d = CHR ''}'' then Some (JObj [], ds)
                     else map_option (\<lambda>(kvs, r). (JObj kvs, r)) (parse_members n cs))
      else parse_number (c # cs))"
| "parse_elements 0 cs = None"
| "parse_elements (Suc n) cs =
     (case parse_value n cs of
        None \<Rightarrow> None
      | Some (v, r) \<Rightarrow>
          (case r of
             [] \<Rightarrow> None
           | d # ds \<Rightarrow>
               if d = CHR '']'' then Some ([v], ds)
               else if d = CHR '','' then map_option (\<lambda>(vs, r'). (v # vs, r')) (parse_elements n ds)
               else None))"
| "parse_members 0 cs = None"
| "parse_members (Suc n) cs =
     (case cs of
        [] \<Rightarrow> None
      | q # qs \<Rightarrow>
          if q \<noteq> dquote then None
          else
            (case parse_string qs of
               None \<Rightarrow> None
             | Some (k, r) \<Rightarrow>
                 (case r of
                    [] \<Rightarrow> None
                  | colon # r1 \<Rightarrow>
                      if colon \<noteq> CHR '':'' then None
                      else
                        (case parse_value n r1 of
                           None \<Rightarrow> None
                         | Some (v, r2) \<Rightarrow>
                             (case r2 of
                                [] \<Rightarrow> None
                              | d # ds \<Rightarrow>
                                  if d = CHR ''}'' then Some ([(k, v)], ds)
                                  else if d = CHR '',''
                                       then map_option (\<lambda>(kvs, r'). ((k, v) # kvs, r'))
                                              (parse_members n ds)
                                       else None)))))"

definition parse :: "string \<Rightarrow> json option" where
  "parse s =
     (case parse_value (Suc (length s)) s of
        Some (v, []) \<Rightarrow> Some v
      | _ \<Rightarrow> None)"

definition referenceCodec :: json_codec where
  "referenceCodec = \<lparr>JSON_stringify = stringify, JSON_parse = parse\<rparr>"

text \<open>
  For the proof that the parser inverts the printer: what may follow a number, the
  fuel a value needs, and the characters a value's text can start with.
\<close>

definition number_end :: "string \<Rightarrow> bool" where
  "number_end r = (case r of [] \<Rightarrow> True | c # _ \<Rightarrow> \<not> is_digit c)"

fun cost :: "json \<Rightarrow> nat"
  and costs :: "json list \<Rightarrow> nat"
  and costs_members :: "(string \<times> json) list \<Rightarrow> nat" where
  "cost (JArr vs) = Suc (costs vs)"
| "cost (JObj kvs) = Suc (costs_members kvs)"
| "cost JNull = 1"
| "cost (JBool b) = 1"
| "cost (JNum i) = 1"
| "cost (JStr s) = 1"
| "costs [] = 0"
| "costs (v # vs) = Suc (max (cost v) (costs vs))"
| "costs_members [] = 0"
| "costs_members ((k, v) # kvs) = Suc (max (cost v) (costs_members kvs))"

definition value_start :: "char \<Rightarrow> bool" where
  "value_start c =
     (is_digit c \<or> c = CHR ''-'' \<or> c = CHR ''n'' \<or> c = CHR ''t'' \<or> c = CHR ''f'' \<or>
      c = dquote \<or> c = CHR ''['' \<or> c = CHR ''{'')"


definition entryOf :: "string \<Rightarrow> role \<Rightarrow> string \<Rightarrow> string option \<Rightarrow> entry" where
  "entryOf i r content nm =
     \<lparr>e_id = i, e_role = r, e_content = content, e_name = nm, e_createdAt = 0\<rparr>"

section \<open>Forests and cycles of parent links\<close>

text \<open>
  The conditions of the spec's termination property, stated on the index and
  independently of the walk: \<open>parentRel\<close> relates a message id to its parent's id when
  both have a message; a list of messages is a forest when this relation is acyclic;
  a cycle is reachable from \<open>h\<close> when parent links lead from \<open>h\<close> to an id that is its
  own ancestor. \<open>parentChain idx start ms\<close> says that \<open>ms\<close> is the chain of messages
  met from \<open>start\<close> along parent links, up to a message without parent (or an id
  without message).
\<close>

definition parentRel :: "(string \<Rightarrow> chat_message option) \<Rightarrow> (string \<times> string) set" where
  "parentRel idx = {(i, p). \<exists>m. idx i = Some m \<and> msg_parentId m = Some p \<and> p \<in> dom idx}"

definition cycleReachable :: "(string \<Rightarrow> chat_message option) \<Rightarrow> string \<Rightarrow> bool" where
  "cycleReachable idx h = (\<exists>c. (h, c) \<in> (parentRel idx)\<^sup>* \<and> (c, c) \<in> (parentRel idx)\<^sup>+)"

primrec parentChain ::
  "(string \<Rightarrow> chat_message option) \<Rightarrow> string option \<Rightarrow> chat_message list \<Rightarrow> bool" where
  "parentChain idx start [] = (case start of None \<Rightarrow> True | Some i \<Rightarrow> idx i = None)"
| "parentChain idx start (m # ms) =
     (case start of
        None \<Rightarrow> False
      | Some i \<Rightarrow> idx i = Some m \<and> parentChain idx (msg_parentId m) ms)"

definition cyclicMessages :: "chat_message list" where
  "cyclicMessages =
     [humanMsg1\<lparr>msg_parentId := Some ''a1''\<rparr>, aiMsg1, humanMsg2]"

section \<open>Handle acquisition\<close>

text \<open>
  C8, as stated: every request without an owner identity fails with the user-facing
  configuration error. The node-type check runs first: a request from a node that is
  not the chat-memory node fails with the authorization error, whatever the owner.
\<close>

theorem getChatHubProxy_no_owner_counterexample:
  "getChatHubProxy_turn supportWorkflow setNode ''s1'' ''n3'' None None emptyWorld =
     (Inl (UnexpectedError ''This proxy is only available for Chat Hub Memory nodes''),
      emptyWorld)
   \<and> fst (getChatHubProxy_turn supportWorkflow setNode ''s1'' ''n3'' None None emptyWorld) \<noteq>
       Inl (UserError ''Chat Hub Memory is only available on Chat hub and manual executions.'')"
  by (simp add: getChatHubProxy_turn_def isAllowedNode_def ALLOWED_NODES_def
      CHAT_HUB_MEMORY_TYPE_def setNode_def)

text \<open>
  C8, amended: a request whose owner id is absent (\<open>undefined\<close>) or empty never yields
  a handle. From the chat-memory node type it fails with the configuration error
  (\<open>UserError\<close> in the turn-based revision, the \<open>Owner ID is required\<close> error in the
  parent-message revision); from any other node type it fails with the authorization
  error. In the turn-based revision the state is left as it was: no uuid is drawn and
  no repository is called.
\<close>

theorem getChatHubProxy_without_owner:
  "getChatHubProxy_turn wfl node sid nid turnId None w =
     (Inl (if isAllowedNode (node_type node)
           then UserError ''Chat Hub Memory is only available on Chat hub and manual executions.''
           else UnexpectedError ''This proxy is only available for Chat Hub Memory nodes''), w)
   \<and> getChatHubProxy_turn wfl node sid nid turnId (Some []) w =
     (Inl (if isAllowedNode (node_type node)
           then UserError ''Chat Hub Memory is only available on Chat hub and manual executions.''
           else UnexpectedError ''This proxy is only available for Chat Hub Memory nodes''), w)
   \<and> getChatHubProxy_legacy wfl node sid nid pid excl None =
     Inl (Error (if isAllowedNode (node_type node)
                 then ''Owner ID is required for Chat Hub Memory. For manual executions, ensure the user context is available.''
                 else ''This proxy is only available for Chat Hub Memory nodes''))
   \<and> getChatHubProxy_legacy wfl node sid nid pid excl (Some []) =
     Inl (Error (if isAllowedNode (node_type node)
                 then ''Owner ID is required for Chat Hub Memory. For manual executions, ensure the user context is available.''
                 else ''This proxy is only available for Chat Hub Memory nodes''))"
  by (simp add: getChatHubProxy_turn_def getChatHubProxy_legacy_def)

section \<open>The session title\<close>

lemma trim_Nil: "trim [] = []"
  by (simp add: trim_def)

lemma extractAgentName_spec: "extractAgentName wfl = specSessionTitle None wfl"
  by (auto simp: extractAgentName_def specSessionTitle_def providedTitle_def
      chatTriggerAgentName_def nonBlankWorkflowName_def agentNameParameter_def
      workflowNameOrDefault_def NAME_FALLBACK_def trim_Nil
      split: option.splits json.splits)

lemma title_or_agentName_spec:
  "(case title of
      None \<Rightarrow> specSessionTitle None wfl
    | Some t \<Rightarrow> if t \<noteq> [] then t else specSessionTitle None wfl) = specSessionTitle title wfl"
  by (auto simp: specSessionTitle_def providedTitle_def split: option.splits)

lemma getChatHubProxy_legacy_agentName:
  "getChatHubProxy_legacy wfl node sid nid pid excl ownerId = Inr h \<Longrightarrow>
     lh_agentName h = extractAgentName wfl"
  by (auto simp: getChatHubProxy_legacy_def makeChatHubOperations_legacy_def
      split: if_splits option.splits)

lemma getChatHubProxy_turn_agentName:
  "fst (getChatHubProxy_turn wfl node sid nid tid ownerId w0) = Inr h \<Longrightarrow>
     th_agentName h = extractAgentName wfl"
  by (auto simp: getChatHubProxy_turn_def makeChatHubOperations_turn_def uuid_def Let_def
      split: if_splits option.splits prod.splits)

lemma ensureSession_legacy_created:
  "ensureSession_legacy h title w = (r, w') \<Longrightarrow> sessions w' \<noteq> sessions w \<Longrightarrow>
     \<exists>s. sessions w' = sessions w @ [s] \<and>
         ses_title s = (case title of
                          None \<Rightarrow> lh_agentName h
                        | Some t \<Rightarrow> if t \<noteq> [] then t else lh_agentName h)"
  by (auto simp: ensureSession_legacy_def ensureSession_legacy_interleaved_def existsById_def
      createChatSession_def logged_def newSession_def Let_def split: if_splits option.splits)

lemma ensureSession_turn_created:
  "ensureSession_turn h w = (r, w') \<Longrightarrow> sessions w' \<noteq> sessions w \<Longrightarrow>
     \<exists>s. sessions w' = sessions w @ [s] \<and> ses_title s = th_agentName h"
  by (auto simp: ensureSession_turn_def ensureSession_turn_interleaved_def existsById_def
      createChatSession_def logged_def newSession_def Let_def split: if_splits option.splits)

text \<open>
  C9: whenever \<open>ensureSession\<close>, on a handle obtained from \<open>getChatHubProxy\<close>, adds a
  session row, it adds exactly one, at the end of the table, and its title is the
  spec's: the caller-given title when one is provided, otherwise the chat trigger's
  non-blank agent name, otherwise the workflow's non-blank name, otherwise
  \<open>Workflow Chat\<close>. The turn-based \<open>ensureSession\<close> takes no title.
\<close>

theorem ensureSession_title:
  "(getChatHubProxy_legacy wfl node sid nid pid excl ownerId = Inr h \<and>
    ensureSession_legacy h title w = (r, w') \<and> sessions w' \<noteq> sessions w
      \<longrightarrow> (\<exists>s. sessions w' = sessions w @ [s] \<and> ses_title s = specSessionTitle title wfl))
   \<and>
   (fst (getChatHubProxy_turn wfl node sid nid tid ownerId v0) = Inr h' \<and>
    ensureSession_turn h' v = (r', v') \<and> sessions v' \<noteq> sessions v
      \<longrightarrow> (\<exists>s. sessions v' = sessions v @ [s] \<and> ses_title s = specSessionTitle None wfl))"
proof (intro conjI impI)
  assume a: "getChatHubProxy_legacy wfl node sid nid pid excl ownerId = Inr h \<and>
    ensureSession_legacy h title w = (r, w') \<and> sessions w' \<noteq> sessions w"
  then have "lh_agentName h = specSessionTitle None wfl"
    by (metis getChatHubProxy_legacy_agentName extractAgentName_spec)
  moreover from a ensureSession_legacy_created [of h title w r w'] obtain s where
    "sessions w' = sessions w @ [s]"
    "ses_title s = (case title of
                      None \<Rightarrow> lh_agentName h
                    | Some t \<Rightarrow> if t \<noteq> [] then t else lh_agentName h)"
    by blast
  ultimately show "\<exists>s. sessions w' = sessions w @ [s] \<and> ses_title s = specSessionTitle title wfl"
    using title_or_agentName_spec [where title = title and wfl = wfl] by (cases title) auto
next
  assume a: "fst (getChatHubProxy_turn wfl node sid nid tid ownerId v0) = Inr h' \<and>
    ensureSession_turn h' v = (r', v') \<and> sessions v' \<noteq> sessions v"
  then have "th_agentName h' = specSessionTitle None wfl"
    by (metis getChatHubProxy_turn_agentName extractAgentName_spec)
  with a ensureSession_turn_created [of h' v r' v']
  show "\<exists>s. sessions v' = sessions v @ [s] \<and> ses_title s = specSessionTitle None wfl"
    by auto
qed

lemma supportWorkflow_title: "specSessionTitle None supportWorkflow = ''Support Bot''"
  by (simp add: specSessionTitle_def providedTitle_def chatTriggerAgentName_def
      supportWorkflow_def memoryNode_def CHAT_TRIGGER_NODE_TYPE_def trim_def js_whitespace_def)

lemma supportWorkflow_proxy:
  "getChatHubProxy_legacy supportWorkflow memoryNode ''s1'' ''n2'' None False (Some ''u1'') =
     Inr supportHandle"
  by (simp add: getChatHubProxy_legacy_def isAllowedNode_def ALLOWED_NODES_def
      CHAT_HUB_MEMORY_TYPE_def memoryNode_def supportHandle_def extractAgentName_spec
      supportWorkflow_title)
    (simp add: supportWorkflow_def)

lemma supportHandle_ensureSession:
  "sessions (snd (ensureSession_legacy supportHandle (Some ''Billing'') emptyWorld)) =
     [newSession ''s1'' ''u1'' ''Billing'' 0 (Some ''wf1'') ''Support Bot'']"
  by (simp add: ensureSession_legacy_def ensureSession_legacy_interleaved_def existsById_def
      createChatSession_def logged_def emptyWorld_def supportHandle_def
      makeChatHubOperations_legacy_def Let_def newSession_def)

lemma supportWorkflow_proxy_turn:
  "fst (getChatHubProxy_turn supportWorkflow memoryNode ''s1'' ''n2'' (Some ''t1'') (Some ''u1'')
          emptyWorld) = Inr (turnHandle (Some ''t1''))"
  by (simp add: getChatHubProxy_turn_def isAllowedNode_def ALLOWED_NODES_def
      CHAT_HUB_MEMORY_TYPE_def memoryNode_def makeChatHubOperations_turn_def turnHandle_def
      extractAgentName_spec supportWorkflow_title)
    (simp add: supportWorkflow_def)

lemma turnHandle_ensureSession:
  "sessions (snd (ensureSession_turn (turnHandle (Some ''t1'')) emptyWorld)) =
     [newSession ''s1'' ''u1'' ''Support Bot'' 0 (Some ''wf1'') ''Support Bot'']"
  by (simp add: ensureSession_turn_def ensureSession_turn_interleaved_def existsById_def
      createChatSession_def logged_def emptyWorld_def turnHandle_def Let_def newSession_def)

theorem ensureSession_title_witness:
  "getChatHubProxy_legacy supportWorkflow memoryNode ''s1'' ''n2'' None False (Some ''u1'') =
     Inr supportHandle
   \<and> sessions (snd (ensureSession_legacy supportHandle (Some ''Billing'') emptyWorld)) \<noteq>
       sessions (emptyWorld :: string option world)
   \<and> (\<exists>s. sessions (snd (ensureSession_legacy supportHandle (Some ''Billing'') emptyWorld)) =
            sessions (emptyWorld :: string option world) @ [s] \<and> ses_title s = ''Billing'')
   \<and> fst (getChatHubProxy_turn supportWorkflow memoryNode ''s1'' ''n2'' (Some ''t1'') (Some ''u1'')
            emptyWorld) = Inr (turnHandle (Some ''t1''))
   \<and> sessions (snd (ensureSession_turn (turnHandle (Some ''t1'')) emptyWorld)) \<noteq>
       sessions (emptyWorld :: string world)
   \<and> (\<exists>s. sessions (snd (ensureSession_turn (turnHandle (Some ''t1'')) emptyWorld)) =
            sessions (emptyWorld :: string world) @ [s] \<and> ses_title s = ''Support Bot'')"
proof -
  let ?res = "ensureSession_legacy supportHandle (Some ''Billing'') emptyWorld"
  let ?h = "turnHandle (Some ''t1'')"
  let ?out = "ensureSession_turn ?h emptyWorld"
  have run: "?res = (fst ?res, snd ?res)" "?out = (fst ?out, snd ?out)"
    by simp_all
  have changed: "sessions (snd ?res) \<noteq> sessions (emptyWorld :: string option world)"
    by (simp add: supportHandle_ensureSession) (simp add: emptyWorld_def)
  have changed': "sessions (snd ?out) \<noteq> sessions (emptyWorld :: string world)"
    by (simp add: turnHandle_ensureSession) (simp add: emptyWorld_def)
  note inst = ensureSession_title [of supportWorkflow memoryNode "''s1''" "''n2''" None False
      "Some ''u1''" supportHandle "Some ''Billing''" emptyWorld "fst ?res" "snd ?res"
      "Some ''t1''" emptyWorld ?h emptyWorld "fst ?out" "snd ?out"]
  have "\<exists>s. sessions (snd ?res) = sessions (emptyWorld :: string option world) @ [s] \<and>
           ses_title s = specSessionTitle (Some ''Billing'') supportWorkflow"
    using inst supportWorkflow_proxy changed run(1) by blast
  then have l: "\<exists>s. sessions (snd ?res) = sessions (emptyWorld :: string option world) @ [s] \<and>
           ses_title s = ''Billing''"
    by (simp add: specSessionTitle_def providedTitle_def)
  have "\<exists>s. sessions (snd ?out) = sessions (emptyWorld :: string world) @ [s] \<and>
           ses_title s = specSessionTitle None supportWorkflow"
    using inst supportWorkflow_proxy_turn changed' run(2) by blast
  then have r: "\<exists>s. sessions (snd ?out) = sessions (emptyWorld :: string world) @ [s] \<and>
           ses_title s = ''Support Bot''"
    by (simp add: supportWorkflow_title)
  show ?thesis
    using supportWorkflow_proxy supportWorkflow_proxy_turn changed changed' l r
    by blast
qed

section \<open>Writes through one turn-based handle\<close>

lemma write_turn_appends:
  "\<exists>r. memory (write_turn J h x w) = memory w @ [r] \<and> mem_key r = th_turnId h"
  by (cases x)
    (simp_all add: addHumanMessage_turn_def addAIMessage_turn_def addToolMessage_turn_def
      createMemoryEntry_def uuid_def logged_def Let_def)

lemma writes_turn_appends:
  "\<exists>new. memory (writes_turn J h xs w) = memory w @ new \<and>
         map mem_key new = replicate (length xs) (th_turnId h)"
proof (induction xs arbitrary: w)
  case Nil
  then show ?case by simp
next
  case (Cons x xs)
  obtain r where r: "memory (write_turn J h x w) = memory w @ [r]" "mem_key r = th_turnId h"
    using write_turn_appends by blast
  obtain new where new: "memory (writes_turn J h xs (write_turn J h x w)) =
      memory (write_turn J h x w) @ new" "map mem_key new = replicate (length xs) (th_turnId h)"
    using Cons.IH by blast
  have "memory (writes_turn J h (x # xs) w) = memory w @ (r # new)"
    using r new by simp
  moreover have "map mem_key (r # new) = replicate (length (x # xs)) (th_turnId h)"
    using r new by simp
  ultimately show ?case by blast
qed

lemma makeChatHubOperations_turn_turnId:
  "makeChatHubOperations_turn sid nid p ow wid an w0 =
     (\<lparr>th_sessionId = sid, th_memoryNodeId = nid, th_providedTurnId = p,
       th_turnId = (case p of Some t \<Rightarrow> t | None \<Rightarrow> uuid_seq w0 (uuid_used w0)),
       th_ownerId = ow, th_workflowId = wid, th_agentName = an\<rparr>,
      (case p of Some t \<Rightarrow> w0 | None \<Rightarrow> w0\<lparr>uuid_used := Suc (uuid_used w0)\<rparr>))"
  by (simp add: makeChatHubOperations_turn_def uuid_def split: option.splits)

lemma getMemory_turn_manual:
  "th_providedTurnId h = None \<Longrightarrow>
   getMemory_turn h w =
     (Inr (map toEntry (filter (\<lambda>r. mem_sessionId r = th_sessionId h \<and> mem_memoryNodeId r = th_memoryNodeId h) (memory w))),
      logged (GetAllMemoryForNode (th_sessionId h) (th_memoryNodeId h)) w)"
  by (simp add: getMemory_turn_def getAllMemoryForNode_def)

text \<open>
  C10: \<open>makeChatHubOperations\<close> fixes the handle's \<open>turnId\<close> when the handle is made: the
  provided turn id when there is one (and then no uuid is drawn), otherwise the one
  uuid drawn there. Every write through a handle \<open>h\<close>, from any state, appends exactly
  one row, keyed by \<open>th_turnId h\<close>; so do all rows of a sequence of writes. With no
  provided turn id \<open>getMemory\<close> does not use the minted id: it returns every row of the
  (session, node) pair through \<open>getAllMemoryForNode\<close>.
\<close>

theorem turn_writes_share_turnId:
  "makeChatHubOperations_turn sid nid p ow wid an w0 =
     (\<lparr>th_sessionId = sid, th_memoryNodeId = nid, th_providedTurnId = p,
       th_turnId = (case p of Some t \<Rightarrow> t | None \<Rightarrow> uuid_seq w0 (uuid_used w0)),
       th_ownerId = ow, th_workflowId = wid, th_agentName = an\<rparr>,
      (case p of Some t \<Rightarrow> w0 | None \<Rightarrow> w0\<lparr>uuid_used := Suc (uuid_used w0)\<rparr>))
   \<and> (\<exists>r. memory (write_turn J h x w) = memory w @ [r] \<and> mem_key r = th_turnId h)
   \<and> (\<exists>new. memory (writes_turn J h xs w) = memory w @ new \<and>
         map mem_key new = replicate (length xs) (th_turnId h))
   \<and> getMemory_turn (fst (makeChatHubOperations_turn sid nid None ow wid an w0)) w =
       (Inr (map toEntry (filter (\<lambda>r. mem_sessionId r = sid \<and> mem_memoryNodeId r = nid) (memory w))),
        logged (GetAllMemoryForNode sid nid) w)"
  using write_turn_appends [of J h x w] writes_turn_appends [of J h xs w]
    makeChatHubOperations_turn_turnId [of sid nid p ow wid an w0]
    getMemory_turn_manual [of "fst (makeChatHubOperations_turn sid nid None ow wid an w0)" w]
  by (simp add: makeChatHubOperations_turn_turnId)


section \<open>Reading memory\<close>

lemma buildMessageHistory_Nil: "buildMessageHistory [] head = Inr []"
  by (simp add: buildMessageHistory_def chosenHead_def messageIndex_def split: option.splits)

lemma extractHumanMessageIds_Nil: "extractHumanMessageIds [] = []"
  by (simp add: extractHumanMessageIds_def dedup_def)

lemma extractTurnIds_Nil: "extractTurnIds [] = []"
  by (simp add: extractTurnIds_def dedup_def)

lemma resolveParentMessageId_frame:
  "resolveParentMessageId h w = (r, h1, w1) \<Longrightarrow>
     lh_sessionId h1 = lh_sessionId h \<and> lh_memoryNodeId h1 = lh_memoryNodeId h \<and>
     lh_excludeCurrentFromMemory h1 = lh_excludeCurrentFromMemory h \<and>
     messages w1 = messages w \<and> memory w1 = memory w \<and>
     filter is_memory_query (calls w1) = filter is_memory_query (calls w)"
  by (auto simp: resolveParentMessageId_def getManyBySessionId_def logged_def Let_def
      split: if_splits sum.splits)

lemma loadBranchMemory_legacy_empty:
  "buildMessageHistory (filter (\<lambda>m. msg_sessionId m = lh_sessionId h) (messages w)) (Some p) = Inr chain \<Longrightarrow>
   adjustHumanMessageIds (lh_excludeCurrentFromMemory h) p (extractHumanMessageIds chain) = [] \<Longrightarrow>
   loadBranchMemory_legacy p h w = (Inr [], h, logged (GetManyBySessionId (lh_sessionId h)) w)"
  by (simp add: loadBranchMemory_legacy_def getManyBySessionId_def)

lemma loadBranchMemory_legacy_query:
  "buildMessageHistory (filter (\<lambda>m. msg_sessionId m = lh_sessionId h) (messages w)) (Some p) = Inr chain \<Longrightarrow>
   adjustHumanMessageIds (lh_excludeCurrentFromMemory h) p (extractHumanMessageIds chain) = F \<Longrightarrow>
   F \<noteq> [] \<Longrightarrow>
   loadBranchMemory_legacy p h w =
     (Inr (map toEntry (filter (\<lambda>r. mem_sessionId r = lh_sessionId h \<and> mem_memoryNodeId r = lh_memoryNodeId h
                   \<and> mem_key r \<in> set (map Some F)) (memory w))), h,
      logged (GetMemoryByKeys (lh_sessionId h) (lh_memoryNodeId h) (map Some F))
        (logged (GetManyBySessionId (lh_sessionId h)) w))"
  by (simp add: loadBranchMemory_legacy_def getManyBySessionId_def getMemoryByParentMessageIds_def
      getMemoryByKeys_def logged_def)

lemma getMemory_legacy_branch:
  "resolveParentMessageId h w = (Inr (Some p), h1, w1) \<Longrightarrow> p \<noteq> [] \<Longrightarrow>
     getMemory_legacy h w = loadBranchMemory_legacy p h1 w1"
  by (simp add: getMemory_legacy_def)

lemma getMemory_turn_empty:
  "th_providedTurnId h = Some t \<Longrightarrow>
   buildMessageHistory (filter (\<lambda>m. msg_sessionId m = th_sessionId h) (messages w)) None = Inr chain \<Longrightarrow>
   extractTurnIds chain = [] \<Longrightarrow>
   getMemory_turn h w = (Inr [], logged (GetManyBySessionId (th_sessionId h)) w)"
  by (simp add: getMemory_turn_def getManyBySessionId_def)

lemma getMemory_legacy_no_human:
  "\<not> lh_parentMessageIdResolved g \<Longrightarrow>
   buildMessageHistory (filter (\<lambda>m. msg_sessionId m = lh_sessionId g) (messages v)) None = Inr chain \<Longrightarrow>
   extractHumanMessageIds chain = [] \<Longrightarrow>
   getMemory_legacy g v =
     (Inr (map toEntry (filter (\<lambda>r. mem_sessionId r = lh_sessionId g \<and>
                                   mem_memoryNodeId r = lh_memoryNodeId g) (memory v))),
      g\<lparr>lh_resolvedParentMessageId := None, lh_parentMessageIdResolved := True\<rparr>,
      logged (GetAllMemoryForNode (lh_sessionId g) (lh_memoryNodeId g))
        (logged (GetManyBySessionId (lh_sessionId g)) v))"
  by (simp add: getMemory_legacy_def resolveParentMessageId_def getManyBySessionId_def
      loadAllMemory_legacy_def getAllMemoryForNode_def logged_def)

text \<open>
  C2, as stated: whenever the extracted correlation ids are empty, \<open>getMemory\<close> returns
  the empty sequence and does not query the memory store. In the parent-message
  revision a handle that was given no parent message id extracts the human-message
  ids of the active path to find one (\<open>resolveParentMessageId\<close>); when there is none,
  the parent message id stays \<open>null\<close> and \<open>getMemory\<close> loads the whole history of the
  node. Here an earlier manual execution has left one entry and no chat message
  exists: the extracted ids are empty, and \<open>getMemory\<close> queries the store and returns
  the entry.
\<close>

theorem getMemory_empty_ids_counterexample:
  "buildMessageHistory
     (filter (\<lambda>m. msg_sessionId m = ''s1'') (messages manualLegacyWorld)) None = Inr []
   \<and> extractHumanMessageIds [] = []
   \<and> fst (getMemory_legacy (legacyHandle None False) manualLegacyWorld) =
       Inr [\<lparr>e_id = ''m1'', e_role = Ai, e_content = ''earlier answer'', e_name = None,
             e_createdAt = 0\<rparr>]
   \<and> calls (snd (snd (getMemory_legacy (legacyHandle None False) manualLegacyWorld))) =
       [GetManyBySessionId ''s1'', GetAllMemoryForNode ''s1'' ''n2'']"
  by (simp add: manualLegacyWorld_def emptyWorld_def memoryRow_def legacyHandle_def
      makeChatHubOperations_legacy_def getMemory_legacy_def resolveParentMessageId_def
      getManyBySessionId_def buildMessageHistory_Nil extractHumanMessageIds_Nil
      loadAllMemory_legacy_def getAllMemoryForNode_def logged_def toEntry_def)

text \<open>
  C2, amended: an empty sequence of correlation ids ends \<open>getMemory\<close> with the empty
  result and no query of the memory store in the two places where \<open>getMemory\<close> itself
  extracts the ids. Turn-based revision: a turn id was provided and the active path
  has no turn id. Parent-message revision: the parent message id is, or resolves to,
  a non-empty id \<open>p\<close> and no human-message id is left after the regeneration
  adjustment. In the parent-message revision with no parent message id given, when
  the active path has no human message the parent message id resolves to none, and
  \<open>getMemory\<close> reads the message list and then queries the store for the whole history
  of the (session, node) pair, which it returns.
\<close>

theorem getMemory_empty_ids:
  "(th_providedTurnId h = Some t \<and>
    buildMessageHistory (filter (\<lambda>m. msg_sessionId m = th_sessionId h) (messages w)) None = Inr chain \<and>
    extractTurnIds chain = []
      \<longrightarrow> fst (getMemory_turn h w) = Inr [] \<and>
          filter is_memory_query (calls (snd (getMemory_turn h w))) = filter is_memory_query (calls w))
   \<and>
   (fst (resolveParentMessageId g v) = Inr (Some p) \<and> p \<noteq> [] \<and>
    buildMessageHistory (filter (\<lambda>m. msg_sessionId m = lh_sessionId g) (messages v)) (Some p) = Inr chain' \<and>
    adjustHumanMessageIds (lh_excludeCurrentFromMemory g) p (extractHumanMessageIds chain') = []
      \<longrightarrow> fst (getMemory_legacy g v) = Inr [] \<and>
          filter is_memory_query (calls (snd (snd (getMemory_legacy g v)))) = filter is_memory_query (calls v))
   \<and>
   (\<not> lh_parentMessageIdResolved g \<and>
    buildMessageHistory (filter (\<lambda>m. msg_sessionId m = lh_sessionId g) (messages v)) None = Inr chain'' \<and>
    extractHumanMessageIds chain'' = []
      \<longrightarrow> fst (resolveParentMessageId g v) = Inr None \<and>
          fst (getMemory_legacy g v) =
            Inr (map toEntry (filter (\<lambda>r. mem_sessionId r = lh_sessionId g \<and>
                                          mem_memoryNodeId r = lh_memoryNodeId g) (memory v))) \<and>
          calls (snd (snd (getMemory_legacy g v))) =
            calls v @ [GetManyBySessionId (lh_sessionId g),
                       GetAllMemoryForNode (lh_sessionId g) (lh_memoryNodeId g)])"
proof (intro conjI impI)
  assume a: "th_providedTurnId h = Some t \<and>
    buildMessageHistory (filter (\<lambda>m. msg_sessionId m = th_sessionId h) (messages w)) None = Inr chain \<and>
    extractTurnIds chain = []"
  then have "getMemory_turn h w = (Inr [], logged (GetManyBySessionId (th_sessionId h)) w)"
    using getMemory_turn_empty by blast
  then show "fst (getMemory_turn h w) = Inr []"
    and "filter is_memory_query (calls (snd (getMemory_turn h w))) = filter is_memory_query (calls w)"
    by (simp_all add: logged_def)
next
  assume a: "fst (resolveParentMessageId g v) = Inr (Some p) \<and> p \<noteq> [] \<and>
    buildMessageHistory (filter (\<lambda>m. msg_sessionId m = lh_sessionId g) (messages v)) (Some p) = Inr chain' \<and>
    adjustHumanMessageIds (lh_excludeCurrentFromMemory g) p (extractHumanMessageIds chain') = []"
  obtain h1 w1 where r: "resolveParentMessageId g v = (Inr (Some p), h1, w1)"
    using a by (cases "resolveParentMessageId g v") auto
  note fr = resolveParentMessageId_frame [OF r]
  have "loadBranchMemory_legacy p h1 w1 = (Inr [], h1, logged (GetManyBySessionId (lh_sessionId h1)) w1)"
    using a fr by (intro loadBranchMemory_legacy_empty [where chain = chain']) simp_all
  then have g: "getMemory_legacy g v = (Inr [], h1, logged (GetManyBySessionId (lh_sessionId h1)) w1)"
    using getMemory_legacy_branch [OF r] a by simp
  show "fst (getMemory_legacy g v) = Inr []"
    by (simp add: g)
  show "filter is_memory_query (calls (snd (snd (getMemory_legacy g v)))) = filter is_memory_query (calls v)"
    using fr by (simp add: g logged_def)
next
  assume a: "\<not> lh_parentMessageIdResolved g \<and>
    buildMessageHistory (filter (\<lambda>m. msg_sessionId m = lh_sessionId g) (messages v)) None = Inr chain'' \<and>
    extractHumanMessageIds chain'' = []"
  then show "fst (resolveParentMessageId g v) = Inr None"
    by (simp add: resolveParentMessageId_def getManyBySessionId_def)
  from a have m: "getMemory_legacy g v =
     (Inr (map toEntry (filter (\<lambda>r. mem_sessionId r = lh_sessionId g \<and>
                                   mem_memoryNodeId r = lh_memoryNodeId g) (memory v))),
      g\<lparr>lh_resolvedParentMessageId := None, lh_parentMessageIdResolved := True\<rparr>,
      logged (GetAllMemoryForNode (lh_sessionId g) (lh_memoryNodeId g))
        (logged (GetManyBySessionId (lh_sessionId g)) v))"
    using getMemory_legacy_no_human [of g v chain''] by blast
  show "fst (getMemory_legacy g v) =
            Inr (map toEntry (filter (\<lambda>r. mem_sessionId r = lh_sessionId g \<and>
                                          mem_memoryNodeId r = lh_memoryNodeId g) (memory v)))"
    by (simp add: m)
  show "calls (snd (snd (getMemory_legacy g v))) =
            calls v @ [GetManyBySessionId (lh_sessionId g),
                       GetAllMemoryForNode (lh_sessionId g) (lh_memoryNodeId g)]"
    by (simp add: m logged_def)
qed

lemmas example_defs = humanMsg1_def aiMsg1_def humanMsg2_def aiMsg2_def withMessages_def
  emptyWorld_def turnHandle_def legacyHandle_def makeChatHubOperations_legacy_def

theorem getMemory_empty_ids_witness:
  "fst (getMemory_turn (turnHandle (Some ''t2'')) (withMessages [humanMsg1])) = Inr []
   \<and> calls (snd (getMemory_turn (turnHandle (Some ''t2'')) (withMessages [humanMsg1]))) =
       [GetManyBySessionId ''s1'']
   \<and> fst (getMemory_legacy (legacyHandle (Some ''h1'') True) (withMessages [humanMsg1, aiMsg1])) = Inr []
   \<and> filter is_memory_query
        (calls (snd (snd (getMemory_legacy (legacyHandle (Some ''h1'') True)
                            (withMessages [humanMsg1, aiMsg1]))))) = []
   \<and> fst (getMemory_legacy (legacyHandle None False) manualLegacyWorld) =
       Inr [\<lparr>e_id = ''m1'', e_role = Ai, e_content = ''earlier answer'', e_name = None,
             e_createdAt = 0\<rparr>]
   \<and> calls (snd (snd (getMemory_legacy (legacyHandle None False) manualLegacyWorld))) =
       [GetManyBySessionId ''s1'', GetAllMemoryForNode ''s1'' ''n2'']"
proof -
  let ?h = "turnHandle (Some ''t2'')" and ?w = "withMessages [humanMsg1] :: string world"
  let ?g = "legacyHandle (Some ''h1'') True"
  let ?v = "withMessages [humanMsg1, aiMsg1] :: string option world"
  let ?m = "legacyHandle None False"
  have h1: "th_providedTurnId ?h = Some ''t2''"
    by (simp add: turnHandle_def)
  have h2: "buildMessageHistory (filter (\<lambda>m. msg_sessionId m = th_sessionId ?h) (messages ?w)) None
      = Inr [humanMsg1]"
    by (simp add: buildMessageHistory_def chosenHead_def messageIndex_def example_defs)
  have h3: "extractTurnIds [humanMsg1] = []"
    by (simp add: extractTurnIds_def dedup_def humanMsg1_def)
  have g1: "fst (resolveParentMessageId ?g ?v) = Inr (Some ''h1'')"
    by (simp add: resolveParentMessageId_def example_defs)
  have g2: "buildMessageHistory (filter (\<lambda>m. msg_sessionId m = lh_sessionId ?g) (messages ?v))
      (Some ''h1'') = Inr [humanMsg1]"
    by (simp add: buildMessageHistory_def chosenHead_def messageIndex_def example_defs)
  have g3: "adjustHumanMessageIds (lh_excludeCurrentFromMemory ?g) ''h1''
      (extractHumanMessageIds [humanMsg1]) = []"
    by (simp add: adjustHumanMessageIds_def extractHumanMessageIds_def dedup_def example_defs)
  have m1: "\<not> lh_parentMessageIdResolved ?m \<and>
      buildMessageHistory (filter (\<lambda>m. msg_sessionId m = lh_sessionId ?m) (messages manualLegacyWorld))
        None = Inr [] \<and>
      extractHumanMessageIds [] = []"
    by (simp add: legacyHandle_def makeChatHubOperations_legacy_def manualLegacyWorld_def
        emptyWorld_def buildMessageHistory_Nil extractHumanMessageIds_Nil)
  have t: "fst (getMemory_turn ?h ?w) = Inr [] \<and>
      filter is_memory_query (calls (snd (getMemory_turn ?h ?w))) = filter is_memory_query (calls ?w)"
    using getMemory_empty_ids [of ?h "''t2''" ?w "[humanMsg1]"] h1 h2 h3 by blast
  have l: "fst (getMemory_legacy ?g ?v) = Inr [] \<and>
      filter is_memory_query (calls (snd (snd (getMemory_legacy ?g ?v)))) =
        filter is_memory_query (calls ?v)"
    using getMemory_empty_ids [where g = ?g and v = ?v and p = "''h1''" and chain' = "[humanMsg1]"]
      g1 g2 g3 by blast
  note n = getMemory_empty_ids [where g = ?m and v = manualLegacyWorld and chain'' = "[]",
      THEN conjunct2, THEN conjunct2, THEN mp, OF m1]
  have c: "calls (snd (getMemory_turn ?h ?w)) = [GetManyBySessionId ''s1'']"
    by (simp add: getMemory_turn_def getManyBySessionId_def logged_def example_defs
        buildMessageHistory_def chosenHead_def messageIndex_def extractTurnIds_def dedup_def)
  have e: "map toEntry (filter (\<lambda>r. mem_sessionId r = lh_sessionId ?m \<and>
        mem_memoryNodeId r = lh_memoryNodeId ?m) (memory manualLegacyWorld)) =
      [\<lparr>e_id = ''m1'', e_role = Ai, e_content = ''earlier answer'', e_name = None,
        e_createdAt = 0\<rparr>]"
    by (simp add: legacyHandle_def makeChatHubOperations_legacy_def manualLegacyWorld_def
        emptyWorld_def memoryRow_def toEntry_def)
  have ids: "lh_sessionId ?m = ''s1''" "lh_memoryNodeId ?m = ''n2''" "calls manualLegacyWorld = []"
    by (simp_all add: legacyHandle_def makeChatHubOperations_legacy_def manualLegacyWorld_def
        emptyWorld_def)
  show ?thesis
    using t l c n e ids by (simp add: withMessages_def emptyWorld_def)
qed

lemma dedup_distinct: "distinct (dedup xs)"
  by (simp add: dedup_def)

lemma dedup_set: "set (dedup xs) = set xs"
  by (simp add: dedup_def)

lemma extractHumanMessageIds_distinct: "distinct (extractHumanMessageIds chain)"
  by (simp add: extractHumanMessageIds_def dedup_distinct)

lemma extractHumanMessageIds_set:
  "set (extractHumanMessageIds chain) = {msg_id m | m. m \<in> set chain \<and> msg_role m = Human}"
  by (auto simp: extractHumanMessageIds_def dedup_set)

lemma remove1_distinct_filter:
  assumes "distinct xs"
  shows "remove1 x xs = filter (\<lambda>y. y \<noteq> x) xs"
proof -
  from assms have "remove1 x xs = removeAll x xs"
    by (rule distinct_remove1_removeAll)
  also have "\<dots> = filter (\<lambda>y. x \<noteq> y) xs"
    by (simp add: removeAll_filter_not_eq)
  also have "\<dots> = filter (\<lambda>y. y \<noteq> x) xs"
    by (rule filter_cong) auto
  finally show ?thesis .
qed

text \<open>
  C1: in the parent-message revision, when the parent message id resolves to a
  non-empty id \<open>p\<close> and the active path up to \<open>p\<close> is \<open>chain\<close>, the filter \<open>F\<close> that
  \<open>getMemory\<close> hands to the memory store is made of the human-message ids of the
  path, in path order: without \<open>p\<close> when the call is marked as a regeneration, and
  otherwise with \<open>p\<close> appended when it is not among them. The store is queried
  with exactly \<open>F\<close> (after the message list has been read), and the result is the
  rows of the (session, node) pair whose \<open>parentMessageId\<close> is in \<open>F\<close>. So \<open>p\<close> is in
  the filter exactly when the call is not a regeneration, and every other id is in
  the filter exactly when it is a human-message id of the path. (With an empty \<open>F\<close>
  no query is made.) The witness is the regeneration of turn T2 on the path T1, T2:
  the filter is T1's anchor alone.
\<close>

theorem getMemory_legacy_filter_ids:
  "fst (resolveParentMessageId h w) = Inr (Some p) \<and> p \<noteq> [] \<and>
   buildMessageHistory (filter (\<lambda>m. msg_sessionId m = lh_sessionId h) (messages w)) (Some p) = Inr chain \<and>
   F = adjustHumanMessageIds (lh_excludeCurrentFromMemory h) p (extractHumanMessageIds chain) \<and>
   F \<noteq> []
     \<longrightarrow> F = (if lh_excludeCurrentFromMemory h
              then filter (\<lambda>i. i \<noteq> p) (extractHumanMessageIds chain)
              else if p \<in> set (extractHumanMessageIds chain)
                   then extractHumanMessageIds chain
                   else extractHumanMessageIds chain @ [p])
         \<and> calls (snd (snd (getMemory_legacy h w))) =
             calls (snd (snd (resolveParentMessageId h w))) @
               [GetManyBySessionId (lh_sessionId h),
                GetMemoryByKeys (lh_sessionId h) (lh_memoryNodeId h) (map Some F)]
         \<and> fst (getMemory_legacy h w) =
             Inr (map toEntry
                    (filter (\<lambda>r. mem_sessionId r = lh_sessionId h \<and>
                                  mem_memoryNodeId r = lh_memoryNodeId h \<and>
                                  mem_key r \<in> Some ` set F) (memory w)))
         \<and> (p \<in> set F) = (\<not> lh_excludeCurrentFromMemory h)
         \<and> set F - {p} = set (extractHumanMessageIds chain) - {p}"
proof (intro impI)
  assume a: "fst (resolveParentMessageId h w) = Inr (Some p) \<and> p \<noteq> [] \<and>
   buildMessageHistory (filter (\<lambda>m. msg_sessionId m = lh_sessionId h) (messages w)) (Some p) = Inr chain \<and>
   F = adjustHumanMessageIds (lh_excludeCurrentFromMemory h) p (extractHumanMessageIds chain) \<and>
   F \<noteq> []"
  obtain h1 w1 where r: "resolveParentMessageId h w = (Inr (Some p), h1, w1)"
    using a by (cases "resolveParentMessageId h w") auto
  note fr = resolveParentMessageId_frame [OF r]
  have F: "F = (if lh_excludeCurrentFromMemory h
              then filter (\<lambda>i. i \<noteq> p) (extractHumanMessageIds chain)
              else if p \<in> set (extractHumanMessageIds chain)
                   then extractHumanMessageIds chain
                   else extractHumanMessageIds chain @ [p])"
    using a by (simp add: adjustHumanMessageIds_def remove1_distinct_filter
        extractHumanMessageIds_distinct)
  have "loadBranchMemory_legacy p h1 w1 =
     (Inr (map toEntry (filter (\<lambda>r. mem_sessionId r = lh_sessionId h1 \<and> mem_memoryNodeId r = lh_memoryNodeId h1
                   \<and> mem_key r \<in> set (map Some F)) (memory w1))), h1,
      logged (GetMemoryByKeys (lh_sessionId h1) (lh_memoryNodeId h1) (map Some F))
        (logged (GetManyBySessionId (lh_sessionId h1)) w1))"
  proof (rule loadBranchMemory_legacy_query [where chain = chain])
    show "buildMessageHistory (filter (\<lambda>m. msg_sessionId m = lh_sessionId h1) (messages w1))
        (Some p) = Inr chain"
      using a fr by simp
    show "adjustHumanMessageIds (lh_excludeCurrentFromMemory h1) p (extractHumanMessageIds chain) = F"
      using a fr by simp
    show "F \<noteq> []"
      using a by blast
  qed
  then have g: "getMemory_legacy h w =
     (Inr (map toEntry (filter (\<lambda>r. mem_sessionId r = lh_sessionId h \<and> mem_memoryNodeId r = lh_memoryNodeId h
                   \<and> mem_key r \<in> Some ` set F) (memory w))), h1,
      logged (GetMemoryByKeys (lh_sessionId h) (lh_memoryNodeId h) (map Some F))
        (logged (GetManyBySessionId (lh_sessionId h)) w1))"
    using getMemory_legacy_branch [OF r] a fr by simp
  show "F = (if lh_excludeCurrentFromMemory h
              then filter (\<lambda>i. i \<noteq> p) (extractHumanMessageIds chain)
              else if p \<in> set (extractHumanMessageIds chain)
                   then extractHumanMessageIds chain
                   else extractHumanMessageIds chain @ [p])
         \<and> calls (snd (snd (getMemory_legacy h w))) =
             calls (snd (snd (resolveParentMessageId h w))) @
               [GetManyBySessionId (lh_sessionId h),
                GetMemoryByKeys (lh_sessionId h) (lh_memoryNodeId h) (map Some F)]
         \<and> fst (getMemory_legacy h w) =
             Inr (map toEntry
                    (filter (\<lambda>r. mem_sessionId r = lh_sessionId h \<and>
                                  mem_memoryNodeId r = lh_memoryNodeId h \<and>
                                  mem_key r \<in> Some ` set F) (memory w)))
         \<and> (p \<in> set F) = (\<not> lh_excludeCurrentFromMemory h)
         \<and> set F - {p} = set (extractHumanMessageIds chain) - {p}"
    using F by (auto simp: g r logged_def)
qed

theorem getMemory_legacy_filter_ids_witness:
  "fst (getMemory_legacy (legacyHandle (Some ''h2'') True) twoTurnWorld) =
     Inr [toEntry (memoryRow ''m1'' (Some ''h1'') Human ''first question''),
          toEntry (memoryRow ''m2'' (Some ''h1'') Ai ''first answer'')]
   \<and> calls (snd (snd (getMemory_legacy (legacyHandle (Some ''h2'') True) twoTurnWorld))) =
       [GetManyBySessionId ''s1'', GetMemoryByKeys ''s1'' ''n2'' [Some ''h1'']]"
proof -
  let ?h = "legacyHandle (Some ''h2'') True"
  have r: "resolveParentMessageId ?h twoTurnWorld = (Inr (Some ''h2''), ?h, twoTurnWorld)"
    by (simp add: resolveParentMessageId_def legacyHandle_def makeChatHubOperations_legacy_def)
  have b: "buildMessageHistory
      (filter (\<lambda>m. msg_sessionId m = lh_sessionId ?h) (messages twoTurnWorld)) (Some ''h2'') =
        Inr [humanMsg1, aiMsg1, humanMsg2]"
    by (simp add: buildMessageHistory_def chosenHead_def messageIndex_def twoTurnWorld_def example_defs)
  have F: "adjustHumanMessageIds (lh_excludeCurrentFromMemory ?h) ''h2''
      (extractHumanMessageIds [humanMsg1, aiMsg1, humanMsg2]) = [''h1'']"
    by (simp add: adjustHumanMessageIds_def extractHumanMessageIds_def dedup_def example_defs)
  have hyp: "fst (resolveParentMessageId ?h twoTurnWorld) = Inr (Some ''h2'') \<and> ''h2'' \<noteq> [] \<and>
      buildMessageHistory
        (filter (\<lambda>m. msg_sessionId m = lh_sessionId ?h) (messages twoTurnWorld)) (Some ''h2'') =
          Inr [humanMsg1, aiMsg1, humanMsg2] \<and>
      [''h1''] = adjustHumanMessageIds (lh_excludeCurrentFromMemory ?h) ''h2''
        (extractHumanMessageIds [humanMsg1, aiMsg1, humanMsg2]) \<and>
      [''h1''] \<noteq> []"
    by (intro conjI) (simp_all add: r b F)
  have "calls (snd (snd (getMemory_legacy ?h twoTurnWorld))) =
             calls (snd (snd (resolveParentMessageId ?h twoTurnWorld))) @
               [GetManyBySessionId (lh_sessionId ?h),
                GetMemoryByKeys (lh_sessionId ?h) (lh_memoryNodeId ?h) (map Some [''h1''])]
         \<and> fst (getMemory_legacy ?h twoTurnWorld) =
             Inr (map toEntry
                    (filter (\<lambda>r. mem_sessionId r = lh_sessionId ?h \<and>
                                  mem_memoryNodeId r = lh_memoryNodeId ?h \<and>
                                  mem_key r \<in> Some ` set [''h1'']) (memory twoTurnWorld)))"
    using getMemory_legacy_filter_ids [of ?h twoTurnWorld "''h2''"
        "[humanMsg1, aiMsg1, humanMsg2]" "[''h1'']", THEN mp, OF hyp]
    by blast
  then show ?thesis
    by (simp add: r) (simp add: twoTurnWorld_def memoryRow_def example_defs)
qed

lemma getMemory_turn_no_messages:
  "th_providedTurnId h = Some t \<Longrightarrow>
   filter (\<lambda>m. msg_sessionId m = th_sessionId h) (messages w) = [] \<Longrightarrow>
   getMemory_turn h w = (Inr [], logged (GetManyBySessionId (th_sessionId h)) w)"
  by (simp add: getMemory_turn_def getManyBySessionId_def)

lemma getMemory_legacy_manual_no_messages:
  "\<not> lh_parentMessageIdResolved g \<Longrightarrow>
   filter (\<lambda>m. msg_sessionId m = lh_sessionId g) (messages v) = [] \<Longrightarrow>
   getMemory_legacy g v =
     (Inr (map toEntry (filter (\<lambda>r. mem_sessionId r = lh_sessionId g \<and>
                                   mem_memoryNodeId r = lh_memoryNodeId g) (memory v))),
      g\<lparr>lh_resolvedParentMessageId := None, lh_parentMessageIdResolved := True\<rparr>,
      logged (GetAllMemoryForNode (lh_sessionId g) (lh_memoryNodeId g))
        (logged (GetManyBySessionId (lh_sessionId g)) v))"
  by (simp add: getMemory_legacy_def resolveParentMessageId_def getManyBySessionId_def
      buildMessageHistory_Nil extractHumanMessageIds_Nil loadAllMemory_legacy_def
      getAllMemoryForNode_def logged_def)

lemma getMemory_legacy_given_no_messages:
  "lh_parentMessageIdResolved g \<Longrightarrow> lh_resolvedParentMessageId g = Some p \<Longrightarrow> p \<noteq> [] \<Longrightarrow>
   filter (\<lambda>m. msg_sessionId m = lh_sessionId g) (messages v) = [] \<Longrightarrow>
   getMemory_legacy g v =
     (if lh_excludeCurrentFromMemory g
      then (Inr [], g, logged (GetManyBySessionId (lh_sessionId g)) v)
      else (Inr (map toEntry (filter (\<lambda>r. mem_sessionId r = lh_sessionId g \<and>
                                   mem_memoryNodeId r = lh_memoryNodeId g \<and>
                                   mem_key r = Some p) (memory v))),
            g,
            logged (GetMemoryByKeys (lh_sessionId g) (lh_memoryNodeId g) [Some p])
              (logged (GetManyBySessionId (lh_sessionId g)) v)))"
  by (simp add: getMemory_legacy_def resolveParentMessageId_def loadBranchMemory_legacy_def
      getManyBySessionId_def buildMessageHistory_Nil extractHumanMessageIds_Nil
      adjustHumanMessageIds_def getMemoryByParentMessageIds_def getMemoryByKeys_def logged_def)

text \<open>
  C3, as stated: with an empty chat-message list \<open>getMemory\<close> returns the empty sequence
  without a query of the memory store, in every execution mode. In manual execution
  the turn-based handle was given no turn id, and \<open>getMemory\<close> loads the whole history
  of the node whatever the message list is. Here a manual execution has written one
  entry; no chat message exists; the next \<open>getMemory\<close> queries the store and returns
  the entry.
\<close>

theorem getMemory_no_messages_counterexample:
  "messages manualWorld = []
   \<and> fst (getMemory_turn manualHandle manualWorld) =
       Inr [\<lparr>e_id = ''uuid-i'', e_role = Human, e_content = ''hello'', e_name = Some ''User'',
             e_createdAt = 0\<rparr>]
   \<and> calls (snd (getMemory_turn manualHandle manualWorld)) =
       calls manualWorld @ [GetAllMemoryForNode ''s1'' ''n2'']"
  by (simp add: manualWorld_def manualHandle_def makeChatHubOperations_turn_def uuid_def
      addHumanMessage_turn_def createMemoryEntry_def logged_def emptyWorld_def getMemory_turn_def
      getAllMemoryForNode_def toEntry_def)

text \<open>
  C3, amended: on a session without chat messages, the turn-based \<open>getMemory\<close> with a
  provided turn id returns the empty sequence after reading the message list, with
  no query of the memory store. In manual execution (no turn id) it always issues
  \<open>getAllMemoryForNode\<close> and returns the node's whole history. The parent-message
  revision, given no parent message id, finds no human message and loads the node's
  whole history too; given a parent message id \<open>p\<close>, it returns the empty sequence
  without a query when regenerating, and otherwise queries the store with the
  filter \<open>[p]\<close>.
\<close>

theorem getMemory_no_messages:
  "(th_providedTurnId h = Some t \<and>
    filter (\<lambda>m. msg_sessionId m = th_sessionId h) (messages w) = []
      \<longrightarrow> getMemory_turn h w = (Inr [], logged (GetManyBySessionId (th_sessionId h)) w))
   \<and>
   (th_providedTurnId h = None
      \<longrightarrow> getMemory_turn h w =
          (Inr (map toEntry (filter (\<lambda>r. mem_sessionId r = th_sessionId h \<and>
                                        mem_memoryNodeId r = th_memoryNodeId h) (memory w))),
           logged (GetAllMemoryForNode (th_sessionId h) (th_memoryNodeId h)) w))
   \<and>
   (\<not> lh_parentMessageIdResolved g \<and>
    filter (\<lambda>m. msg_sessionId m = lh_sessionId g) (messages v) = []
      \<longrightarrow> getMemory_legacy g v =
          (Inr (map toEntry (filter (\<lambda>r. mem_sessionId r = lh_sessionId g \<and>
                                        mem_memoryNodeId r = lh_memoryNodeId g) (memory v))),
           g\<lparr>lh_resolvedParentMessageId := None, lh_parentMessageIdResolved := True\<rparr>,
           logged (GetAllMemoryForNode (lh_sessionId g) (lh_memoryNodeId g))
             (logged (GetManyBySessionId (lh_sessionId g)) v)))
   \<and>
   (lh_parentMessageIdResolved g \<and> lh_resolvedParentMessageId g = Some p \<and> p \<noteq> [] \<and>
    filter (\<lambda>m. msg_sessionId m = lh_sessionId g) (messages v) = []
      \<longrightarrow> getMemory_legacy g v =
          (if lh_excludeCurrentFromMemory g
           then (Inr [], g, logged (GetManyBySessionId (lh_sessionId g)) v)
           else (Inr (map toEntry (filter (\<lambda>r. mem_sessionId r = lh_sessionId g \<and>
                                        mem_memoryNodeId r = lh_memoryNodeId g \<and>
                                        mem_key r = Some p) (memory v))),
                 g,
                 logged (GetMemoryByKeys (lh_sessionId g) (lh_memoryNodeId g) [Some p])
                   (logged (GetManyBySessionId (lh_sessionId g)) v))))"
  using getMemory_turn_no_messages [of h t w] getMemory_turn_manual [of h w]
    getMemory_legacy_manual_no_messages [of g v] getMemory_legacy_given_no_messages [of g p v]
  by blast


theorem getMemory_no_messages_witness:
  "getMemory_turn (turnHandle (Some ''t1'')) emptyWorld =
     (Inr [], logged (GetManyBySessionId ''s1'') emptyWorld)
   \<and> getMemory_turn manualHandle manualWorld =
       (Inr [\<lparr>e_id = ''uuid-i'', e_role = Human, e_content = ''hello'', e_name = Some ''User'',
              e_createdAt = 0\<rparr>],
        logged (GetAllMemoryForNode ''s1'' ''n2'') manualWorld)
   \<and> fst (getMemory_legacy (legacyHandle None False) emptyWorld) = Inr []
   \<and> calls (snd (snd (getMemory_legacy (legacyHandle None False) emptyWorld))) =
       [GetManyBySessionId ''s1'', GetAllMemoryForNode ''s1'' ''n2'']
   \<and> calls (snd (snd (getMemory_legacy (legacyHandle (Some ''h1'') False) emptyWorld))) =
       [GetManyBySessionId ''s1'', GetMemoryByKeys ''s1'' ''n2'' [Some ''h1'']]"
proof -
  let ?h1 = "turnHandle (Some ''t1'')" and ?g1 = "legacyHandle None False"
  let ?g2 = "legacyHandle (Some ''h1'') False"
  let ?e = "emptyWorld :: string world" and ?v = "emptyWorld :: string option world"
  have a1: "th_providedTurnId ?h1 = Some ''t1'' \<and>
      filter (\<lambda>m. msg_sessionId m = th_sessionId ?h1) (messages ?e) = []"
    by (simp add: turnHandle_def emptyWorld_def)
  have a2: "th_providedTurnId manualHandle = None"
    by (simp add: manualHandle_def makeChatHubOperations_turn_def uuid_def)
  have a3: "\<not> lh_parentMessageIdResolved ?g1 \<and>
      filter (\<lambda>m. msg_sessionId m = lh_sessionId ?g1) (messages ?v) = []"
    by (simp add: legacyHandle_def makeChatHubOperations_legacy_def emptyWorld_def)
  have a4: "lh_parentMessageIdResolved ?g2 \<and> lh_resolvedParentMessageId ?g2 = Some ''h1'' \<and>
      ''h1'' \<noteq> [] \<and> filter (\<lambda>m. msg_sessionId m = lh_sessionId ?g2) (messages ?v) = []"
    by (simp add: legacyHandle_def makeChatHubOperations_legacy_def emptyWorld_def)
  note t1 = getMemory_no_messages [of ?h1 "''t1''" ?e ?g1 ?v "''h1''", THEN conjunct1, THEN mp, OF a1]
  note t2 = getMemory_no_messages [of manualHandle "''t1''" manualWorld ?g1 ?v "''h1''",
      THEN conjunct2, THEN conjunct1, THEN mp, OF a2]
  note t3 = getMemory_no_messages [of ?h1 "''t1''" ?e ?g1 ?v "''h1''",
      THEN conjunct2, THEN conjunct2, THEN conjunct1, THEN mp, OF a3]
  note t4 = getMemory_no_messages [of ?h1 "''t1''" ?e ?g2 ?v "''h1''",
      THEN conjunct2, THEN conjunct2, THEN conjunct2, THEN mp, OF a4]
  have m: "map toEntry (filter (\<lambda>r. mem_sessionId r = th_sessionId manualHandle \<and>
        mem_memoryNodeId r = th_memoryNodeId manualHandle) (memory manualWorld)) =
      [\<lparr>e_id = ''uuid-i'', e_role = Human, e_content = ''hello'', e_name = Some ''User'',
        e_createdAt = 0\<rparr>]"
    by (simp add: manualWorld_def manualHandle_def makeChatHubOperations_turn_def uuid_def
        addHumanMessage_turn_def createMemoryEntry_def logged_def emptyWorld_def toEntry_def)
  have ids: "th_sessionId manualHandle = ''s1''" "th_memoryNodeId manualHandle = ''n2''"
    by (simp_all add: manualHandle_def makeChatHubOperations_turn_def uuid_def)
  show ?thesis
    using t1 t2 t3 t4 m ids
    by (simp add: turnHandle_def legacyHandle_def makeChatHubOperations_legacy_def logged_def
        emptyWorld_def)
qed

section \<open>Ensuring the session\<close>

lemma createChatSession_distinct:
  "distinct (map ses_id (sessions w)) \<Longrightarrow>
     distinct (map ses_id (sessions (snd (createChatSession s w))))"
  by (auto simp: createChatSession_def logged_def list_ex_iff)

lemma createChatSession_fresh:
  "\<not> list_ex (\<lambda>t. ses_id t = ses_id s) (sessions w) \<Longrightarrow>
     createChatSession s w = (Inr (), logged (CreateChatSession (ses_id s)) (w\<lparr>sessions := sessions w @ [s]\<rparr>))"
  by (simp add: createChatSession_def)

lemma ensureSession_turn_propagates:
  "\<not> list_ex (\<lambda>s. ses_id s = th_sessionId h \<and> ses_ownerId s = th_ownerId h) (sessions w) \<Longrightarrow>
   createChatSession
     (newSession (th_sessionId h) (th_ownerId h) (th_agentName h)
        (clock (between (logged (ExistsById (th_sessionId h) (th_ownerId h)) w)))
        (th_workflowId h) (th_agentName h))
     (between (logged (ExistsById (th_sessionId h) (th_ownerId h)) w)) = (Inl e, w') \<Longrightarrow>
   ensureSession_turn_interleaved between h w = (Inl e, w')"
  by (simp add: ensureSession_turn_interleaved_def existsById_def Let_def)

lemma ensureSession_legacy_propagates:
  "\<not> list_ex (\<lambda>s. ses_id s = lh_sessionId g \<and> ses_ownerId s = lh_ownerId g) (sessions v) \<Longrightarrow>
   createChatSession
     (newSession (lh_sessionId g) (lh_ownerId g)
        (case title of None \<Rightarrow> lh_agentName g | Some t \<Rightarrow> if t \<noteq> [] then t else lh_agentName g)
        (clock (amid (logged (ExistsById (lh_sessionId g) (lh_ownerId g)) v)))
        (lh_workflowId g) (lh_agentName g))
     (amid (logged (ExistsById (lh_sessionId g) (lh_ownerId g)) v)) = (Inl e', v') \<Longrightarrow>
   ensureSession_legacy_interleaved amid g title v = (Inl e', v')"
  by (simp add: ensureSession_legacy_interleaved_def existsById_def Let_def)

lemma ensureSession_turn_race:
  "\<not> list_ex (\<lambda>s. ses_id s = th_sessionId h \<and> ses_ownerId s = th_ownerId h) (sessions w) \<Longrightarrow>
   list_ex (\<lambda>s. ses_id s = th_sessionId h)
     (sessions (between (logged (ExistsById (th_sessionId h) (th_ownerId h)) w))) \<Longrightarrow>
   ensureSession_turn_interleaved between h w =
     (Inl (QueryFailedError ''duplicate key value violates unique constraint''),
      logged (CreateChatSession (th_sessionId h))
        (between (logged (ExistsById (th_sessionId h) (th_ownerId h)) w)))"
  by (simp add: ensureSession_turn_interleaved_def existsById_def Let_def createChatSession_def
      newSession_def)

lemma ensureSession_legacy_race:
  "\<not> list_ex (\<lambda>s. ses_id s = lh_sessionId g \<and> ses_ownerId s = lh_ownerId g) (sessions v) \<Longrightarrow>
   list_ex (\<lambda>s. ses_id s = lh_sessionId g)
     (sessions (amid (logged (ExistsById (lh_sessionId g) (lh_ownerId g)) v))) \<Longrightarrow>
   ensureSession_legacy_interleaved amid g title v =
     (Inl (QueryFailedError ''duplicate key value violates unique constraint''),
      logged (CreateChatSession (lh_sessionId g))
        (amid (logged (ExistsById (lh_sessionId g) (lh_ownerId g)) v)))"
  by (simp add: ensureSession_legacy_interleaved_def existsById_def Let_def createChatSession_def
      newSession_def)

lemma ensureSession_turn_twice:
  "\<not> list_ex (\<lambda>s. ses_id s = th_sessionId h) (sessions w) \<Longrightarrow>
   fst (ensureSession_turn h w) = Inr () \<and>
   sessions (snd (ensureSession_turn h w)) =
     sessions w @ [newSession (th_sessionId h) (th_ownerId h) (th_agentName h) (clock w)
                     (th_workflowId h) (th_agentName h)] \<and>
   fst (ensureSession_turn h (snd (ensureSession_turn h w))) = Inr () \<and>
   sessions (snd (ensureSession_turn h (snd (ensureSession_turn h w)))) =
     sessions (snd (ensureSession_turn h w))"
  by (auto simp: ensureSession_turn_def ensureSession_turn_interleaved_def existsById_def Let_def
      createChatSession_def newSession_def logged_def list_ex_iff)

lemma ensureSession_legacy_twice:
  "\<not> list_ex (\<lambda>s. ses_id s = lh_sessionId g) (sessions v) \<Longrightarrow>
   fst (ensureSession_legacy g title v) = Inr () \<and>
   length (sessions (snd (ensureSession_legacy g title v))) = Suc (length (sessions v)) \<and>
   fst (ensureSession_legacy g title (snd (ensureSession_legacy g title v))) = Inr () \<and>
   sessions (snd (ensureSession_legacy g title (snd (ensureSession_legacy g title v)))) =
     sessions (snd (ensureSession_legacy g title v))"
  by (auto simp: ensureSession_legacy_def ensureSession_legacy_interleaved_def existsById_def Let_def
      createChatSession_def newSession_def logged_def list_ex_iff)

lemma ensureSession_turn_distinct:
  "distinct (map ses_id (sessions (between (logged (ExistsById (th_sessionId h) (th_ownerId h)) w)))) \<Longrightarrow>
     distinct (map ses_id (sessions (snd (ensureSession_turn_interleaved between h w))))"
  using createChatSession_distinct
  by (auto simp: ensureSession_turn_interleaved_def existsById_def Let_def logged_def)

lemma ensureSession_legacy_distinct:
  "distinct (map ses_id (sessions (amid (logged (ExistsById (lh_sessionId g) (lh_ownerId g)) v)))) \<Longrightarrow>
     distinct (map ses_id (sessions (snd (ensureSession_legacy_interleaved amid g title v))))"
  using createChatSession_distinct
  by (auto simp: ensureSession_legacy_interleaved_def existsById_def Let_def logged_def)

text \<open>
  C7, as stated: a duplicate-key failure of the insert, after a racing existence
  check, is treated as success. Two memory nodes of one workflow ensure the same
  session: the first finds no session, the second runs to completion at the first's
  suspension point, and the first's insert then fails. \<open>ensureSession\<close> has no handler:
  the failure reaches the first caller. One row results.
\<close>

theorem ensureSession_race_counterexample:
  "fst (ensureSession_turn_interleaved secondCaller
          (turnHandle (Some ''t1'')) emptyWorld) =
     Inl (QueryFailedError ''duplicate key value violates unique constraint'')
   \<and> map ses_id (sessions (snd (ensureSession_turn_interleaved
          secondCaller
          (turnHandle (Some ''t1'')) emptyWorld))) = [''s1'']"
  by (simp add: ensureSession_turn_interleaved_def ensureSession_turn_def existsById_def Let_def
      createChatSession_def newSession_def logged_def secondCaller_def secondMemoryHandle_def turnHandle_def
      emptyWorld_def)


text \<open>
  C7, amended. In both revisions: when the existence check finds no session of the
  owner, whatever error the insert raises is the result of \<open>ensureSession\<close>; so when
  a row with the session id is there by the time of the insert (another caller
  created it at the suspension point, \<open>between\<close>), the call fails with the duplicate-key
  error and adds no row. Called with nothing running in between, on a table without
  the id, \<open>ensureSession\<close> succeeds and adds one row, and a second call succeeds and
  adds none. In every case a table without two rows of one id stays so.
\<close>

theorem ensureSession_duplicate_key:
  "(\<not> list_ex (\<lambda>s. ses_id s = th_sessionId h \<and> ses_ownerId s = th_ownerId h) (sessions w) \<and>
    createChatSession
      (newSession (th_sessionId h) (th_ownerId h) (th_agentName h)
         (clock (between (logged (ExistsById (th_sessionId h) (th_ownerId h)) w)))
         (th_workflowId h) (th_agentName h))
      (between (logged (ExistsById (th_sessionId h) (th_ownerId h)) w)) = (Inl e, w')
      \<longrightarrow> ensureSession_turn_interleaved between h w = (Inl e, w'))
   \<and>
   (\<not> list_ex (\<lambda>s. ses_id s = th_sessionId h \<and> ses_ownerId s = th_ownerId h) (sessions w) \<and>
    list_ex (\<lambda>s. ses_id s = th_sessionId h)
      (sessions (between (logged (ExistsById (th_sessionId h) (th_ownerId h)) w)))
      \<longrightarrow> ensureSession_turn_interleaved between h w =
            (Inl (QueryFailedError ''duplicate key value violates unique constraint''),
             logged (CreateChatSession (th_sessionId h))
               (between (logged (ExistsById (th_sessionId h) (th_ownerId h)) w))))
   \<and>
   (\<not> list_ex (\<lambda>s. ses_id s = th_sessionId h) (sessions w)
      \<longrightarrow> fst (ensureSession_turn h w) = Inr () \<and>
          sessions (snd (ensureSession_turn h w)) =
            sessions w @ [newSession (th_sessionId h) (th_ownerId h) (th_agentName h) (clock w)
                            (th_workflowId h) (th_agentName h)] \<and>
          fst (ensureSession_turn h (snd (ensureSession_turn h w))) = Inr () \<and>
          sessions (snd (ensureSession_turn h (snd (ensureSession_turn h w)))) =
            sessions (snd (ensureSession_turn h w)))
   \<and>
   (\<not> list_ex (\<lambda>s. ses_id s = lh_sessionId g \<and> ses_ownerId s = lh_ownerId g) (sessions v) \<and>
    createChatSession
      (newSession (lh_sessionId g) (lh_ownerId g)
         (case title of None \<Rightarrow> lh_agentName g | Some t \<Rightarrow> if t \<noteq> [] then t else lh_agentName g)
         (clock (amid (logged (ExistsById (lh_sessionId g) (lh_ownerId g)) v)))
         (lh_workflowId g) (lh_agentName g))
      (amid (logged (ExistsById (lh_sessionId g) (lh_ownerId g)) v)) = (Inl e', v')
      \<longrightarrow> ensureSession_legacy_interleaved amid g title v = (Inl e', v'))
   \<and>
   (\<not> list_ex (\<lambda>s. ses_id s = lh_sessionId g \<and> ses_ownerId s = lh_ownerId g) (sessions v) \<and>
    list_ex (\<lambda>s. ses_id s = lh_sessionId g)
      (sessions (amid (logged (ExistsById (lh_sessionId g) (lh_ownerId g)) v)))
      \<longrightarrow> ensureSession_legacy_interleaved amid g title v =
            (Inl (QueryFailedError ''duplicate key value violates unique constraint''),
             logged (CreateChatSession (lh_sessionId g))
               (amid (logged (ExistsById (lh_sessionId g) (lh_ownerId g)) v))))
   \<and>
   (\<not> list_ex (\<lambda>s. ses_id s = lh_sessionId g) (sessions v)
      \<longrightarrow> fst (ensureSession_legacy g title v) = Inr () \<and>
          length (sessions (snd (ensureSession_legacy g title v))) = Suc (length (sessions v)) \<and>
          fst (ensureSession_legacy g title (snd (ensureSession_legacy g title v))) = Inr () \<and>
          sessions (snd (ensureSession_legacy g title (snd (ensureSession_legacy g title v)))) =
            sessions (snd (ensureSession_legacy g title v)))
   \<and>
   (distinct (map ses_id (sessions (between (logged (ExistsById (th_sessionId h) (th_ownerId h)) w))))
      \<longrightarrow> distinct (map ses_id (sessions (snd (ensureSession_turn_interleaved between h w)))))
   \<and>
   (distinct (map ses_id (sessions (amid (logged (ExistsById (lh_sessionId g) (lh_ownerId g)) v))))
      \<longrightarrow> distinct (map ses_id (sessions (snd (ensureSession_legacy_interleaved amid g title v)))))"
  using ensureSession_turn_distinct [of between h w] ensureSession_legacy_distinct [of amid g v title]
    ensureSession_turn_propagates [of h w between e w']
    ensureSession_turn_race [of h w between] ensureSession_turn_twice [of h w]
    ensureSession_legacy_propagates [of g v title amid e' v']
    ensureSession_legacy_race [of g v amid title] ensureSession_legacy_twice [of g v title]
  by blast

theorem ensureSession_duplicate_key_witness:
  "ensureSession_turn_interleaved secondCaller
      (turnHandle (Some ''t1'')) emptyWorld =
     (Inl (QueryFailedError ''duplicate key value violates unique constraint''),
      logged (CreateChatSession ''s1'')
        (secondCaller (logged (ExistsById ''s1'' ''u1'') emptyWorld)))
   \<and> fst (ensureSession_turn (turnHandle (Some ''t1'')) emptyWorld) = Inr ()
   \<and> fst (ensureSession_turn (turnHandle (Some ''t1''))
            (snd (ensureSession_turn (turnHandle (Some ''t1'')) emptyWorld))) = Inr ()
   \<and> map ses_id (sessions (snd (ensureSession_turn (turnHandle (Some ''t1''))
            (snd (ensureSession_turn (turnHandle (Some ''t1'')) emptyWorld))))) = [''s1'']
   \<and> fst (ensureSession_legacy_interleaved
            secondCaller_legacy
            (legacyHandle None False) (Some ''Billing'') emptyWorld) =
       Inl (QueryFailedError ''duplicate key value violates unique constraint'')
   \<and> fst (ensureSession_legacy (legacyHandle None False) (Some ''Billing'')
            (snd (ensureSession_legacy (legacyHandle None False) (Some ''Billing'') emptyWorld))) =
       Inr ()"
proof -
  let ?h = "turnHandle (Some ''t1'')" and ?g = "legacyHandle None False"
  let ?e = "emptyWorld :: string world" and ?v = "emptyWorld :: string option world"
  let ?between = secondCaller
  let ?amid = secondCaller_legacy
  have ids: "th_sessionId ?h = ''s1''" "th_ownerId ?h = ''u1''"
    "lh_sessionId ?g = ''s1''" "lh_ownerId ?g = ''u1''"
    by (simp_all add: turnHandle_def legacyHandle_def makeChatHubOperations_legacy_def)
  have a2: "\<not> list_ex (\<lambda>s. ses_id s = th_sessionId ?h \<and> ses_ownerId s = th_ownerId ?h) (sessions ?e) \<and>
    list_ex (\<lambda>s. ses_id s = th_sessionId ?h)
      (sessions (?between (logged (ExistsById (th_sessionId ?h) (th_ownerId ?h)) ?e)))"
    by (simp add: ensureSession_turn_def ensureSession_turn_interleaved_def existsById_def Let_def
        createChatSession_def newSession_def logged_def secondCaller_def secondMemoryHandle_def turnHandle_def
        emptyWorld_def)
  have a3: "\<not> list_ex (\<lambda>s. ses_id s = th_sessionId ?h) (sessions ?e)"
    by (simp add: emptyWorld_def)
  have a5: "\<not> list_ex (\<lambda>s. ses_id s = lh_sessionId ?g \<and> ses_ownerId s = lh_ownerId ?g) (sessions ?v) \<and>
    list_ex (\<lambda>s. ses_id s = lh_sessionId ?g)
      (sessions (?amid (logged (ExistsById (lh_sessionId ?g) (lh_ownerId ?g)) ?v)))"
    by (simp add: ensureSession_legacy_def ensureSession_legacy_interleaved_def existsById_def
        Let_def createChatSession_def newSession_def logged_def secondCaller_legacy_def legacyHandle_def
        makeChatHubOperations_legacy_def emptyWorld_def)
  have a6: "\<not> list_ex (\<lambda>s. ses_id s = lh_sessionId ?g) (sessions ?v)"
    by (simp add: emptyWorld_def)
  note inst = ensureSession_duplicate_key [of ?h ?e ?between _ _ ?g ?v "Some ''Billing''" ?amid]
  note t2 = inst [THEN conjunct2, THEN conjunct1, THEN mp, OF a2]
  note t3 = inst [THEN conjunct2, THEN conjunct2, THEN conjunct1, THEN mp, OF a3]
  note t5 = inst [THEN conjunct2, THEN conjunct2, THEN conjunct2, THEN conjunct2, THEN conjunct1,
      THEN mp, OF a5]
  note t6 = inst [THEN conjunct2, THEN conjunct2, THEN conjunct2, THEN conjunct2, THEN conjunct2,
      THEN conjunct1, THEN mp, OF a6]
  have s: "map ses_id (sessions (snd (ensureSession_turn ?h (snd (ensureSession_turn ?h ?e))))) =
      [''s1'']"
    using t3 by (simp add: newSession_def ids emptyWorld_def)
  show ?thesis
    using t2 t3 t5 t6 s by (simp add: ids)
qed

section \<open>The reference codec parses what it prints\<close>

lemma dquote_neq_backslash: "dquote \<noteq> backslash"
  by (simp add: dquote_def backslash_def)

lemma parse_string_escape: "parse_string (escape s @ dquote # r) = Some (s, r)"
  by (induction s) (auto simp: dquote_def backslash_def)

lemma parse_string_quoted_tail: "parse_string (tl (quoted s) @ r) = Some (s, r)"
  by (simp add: quoted_def parse_string_escape)

lemma is_digit_digit: "d < 10 \<Longrightarrow> is_digit (digit d)"
  by (simp add: is_digit_def digit_def)

lemma of_char_digit: "d < 10 \<Longrightarrow> of_char (digit d) - 48 = d"
  by (simp add: digit_def)

lemma digits_all: "list_all is_digit (digits n)"
proof (induction n rule: digits.induct)
  case (1 n)
  show ?case
  proof (cases "n < 10")
    case True
    then show ?thesis
      by (subst digits.simps) (simp add: is_digit_digit)
  next
    case False
    with 1 show ?thesis
      by (subst digits.simps) (simp add: is_digit_digit)
  qed
qed

lemma digits_nonempty: "digits n \<noteq> []"
  by (subst digits.simps) simp

lemma number_of_digits_digits: "number_of_digits (digits n) = n"
proof (induction n rule: digits.induct)
  case (1 n)
  show ?case
  proof (cases "n < 10")
    case True
    then show ?thesis
      by (subst digits.simps) (simp add: number_of_digits_def of_char_digit)
  next
    case False
    with 1 have "number_of_digits (digits (n div 10)) = n div 10"
      by simp
    with False show ?thesis
      by (subst digits.simps) (simp add: number_of_digits_def of_char_digit)
  qed
qed

lemma digits_members: "x \<in> set (digits n) \<Longrightarrow> is_digit x"
  using digits_all [of n] by (simp add: list_all_iff)

lemma takeWhile_digits:
  assumes "number_end r"
  shows "takeWhile is_digit (digits n @ r) = digits n"
proof -
  have "takeWhile is_digit r = []"
    using assms by (cases r) (simp_all add: number_end_def)
  then show ?thesis
    by (simp add: digits_members)
qed

lemma dropWhile_digits:
  assumes "number_end r"
  shows "dropWhile is_digit (digits n @ r) = r"
proof -
  have "dropWhile is_digit r = r"
    using assms by (cases r) (simp_all add: number_end_def)
  then show ?thesis
    by (simp add: digits_members)
qed

lemma parse_digits_digits:
  "number_end r \<Longrightarrow> parse_digits sign (digits n @ r) = Some (JNum (sign * int n), r)"
  by (simp add: parse_digits_def takeWhile_digits dropWhile_digits digits_nonempty
      number_of_digits_digits)

lemma hd_digits: "is_digit (hd (digits n))"
  using digits_nonempty [of n] digits_members [of "hd (digits n)" n] by simp

lemma is_digit_not_special:
  "is_digit c \<Longrightarrow> c \<noteq> CHR ''-'' \<and> c \<noteq> CHR ''n'' \<and> c \<noteq> CHR ''t'' \<and> c \<noteq> CHR ''f'' \<and>
     c \<noteq> dquote \<and> c \<noteq> CHR ''['' \<and> c \<noteq> CHR ''{''"
  by (auto simp: is_digit_def dquote_def)

lemma parse_number_unsigned:
  "ds \<noteq> [] \<Longrightarrow> hd ds \<noteq> CHR ''-'' \<Longrightarrow> parse_number (ds @ r) = parse_digits 1 (ds @ r)"
  by (cases ds) (simp_all add: parse_number_def)

lemma parse_number_stringify:
  assumes "number_end r"
  shows "parse_number (stringify (JNum i) @ r) = Some (JNum i, r)"
proof (cases "i < 0")
  case True
  then show ?thesis
    using assms by (simp add: parse_number_def parse_digits_digits)
next
  case False
  have "parse_number (digits (nat i) @ r) = parse_digits 1 (digits (nat i) @ r)"
    using hd_digits [of "nat i"] is_digit_not_special digits_nonempty
    by (intro parse_number_unsigned) auto
  with False assms show ?thesis
    by (simp add: parse_digits_digits)
qed


lemma stringify_start: "\<exists>c cs. stringify v = c # cs \<and> value_start c"
proof (cases v)
  case (JNum i)
  obtain c cs where "digits (nat i) = c # cs" "is_digit c"
    using hd_digits [of "nat i"] digits_nonempty [of "nat i"] by (cases "digits (nat i)") auto
  with JNum show ?thesis
    by (auto simp: value_start_def)
qed (auto simp: value_start_def quoted_def)

lemma value_start_not_close: "value_start c \<Longrightarrow> c \<noteq> CHR '']'' \<and> c \<noteq> CHR ''}''"
  by (auto simp: value_start_def is_digit_def dquote_def)

lemma number_end_sep:
  "number_end (CHR '','' # r)" "number_end (CHR '']'' # r)" "number_end (CHR ''}'' # r)"
  by (simp_all add: number_end_def is_digit_def)

lemma parse_value_number:
  assumes "number_end r"
  shows "parse_value (Suc n) (stringify (JNum i) @ r) = Some (JNum i, r)"
proof -
  obtain c cs where c: "stringify (JNum i) = c # cs" "value_start c"
    using stringify_start by blast
  have s: "c \<noteq> CHR ''n'' \<and> c \<noteq> CHR ''t'' \<and> c \<noteq> CHR ''f'' \<and> c \<noteq> dquote \<and> c \<noteq> CHR ''['' \<and>
      c \<noteq> CHR ''{''"
  proof (cases "i < 0")
    case True
    with c(1) show ?thesis by (auto simp: dquote_def)
  next
    case False
    with c(1) hd_digits [of "nat i"] have "is_digit c"
      by (metis list.sel(1) stringify.simps(3))
    then show ?thesis
      using is_digit_not_special by blast
  qed
  have "parse_value (Suc n) ((c # cs) @ r) = parse_number ((c # cs) @ r)"
    using s by simp
  then show ?thesis
    using parse_number_stringify [OF assms, of i] by (simp only: c(1))
qed


lemma dquote_not_letter:
  "dquote \<noteq> CHR ''n''" "dquote \<noteq> CHR ''t''" "dquote \<noteq> CHR ''f''"
  by (simp_all add: dquote_def)

lemma parse_value_string:
  "parse_value (Suc n) (stringify (JStr s) @ r) = Some (JStr s, r)"
  by (simp add: quoted_def parse_string_escape dquote_not_letter)

lemma parse_value_array:
  assumes "vs \<noteq> []"
    and "parse_elements n (stringify_elements vs @ CHR '']'' # r) = Some (vs, r)"
  shows "parse_value (Suc n) (stringify (JArr vs) @ r) = Some (JArr vs, r)"
proof -
  obtain v us where vs: "vs = v # us"
    using assms(1) by (cases vs) auto
  obtain c cs where c: "stringify v = c # cs" "value_start c"
    using stringify_start by blast
  have "\<exists>cs'. stringify_elements vs = c # cs'"
    using vs c(1) by (cases us) auto
  then obtain cs' where e: "stringify_elements vs = c # cs'"
    by blast
  have "c \<noteq> CHR '']''"
    using c(2) value_start_not_close by blast
  then show ?thesis
    using assms(2) by (simp add: e dquote_def)
qed

lemma parse_value_object:
  assumes "kvs \<noteq> []"
    and "parse_members n (stringify_members kvs @ CHR ''}'' # r) = Some (kvs, r)"
  shows "parse_value (Suc n) (stringify (JObj kvs) @ r) = Some (JObj kvs, r)"
proof -
  obtain k v us where kvs: "kvs = (k, v) # us"
    using assms(1) by (cases kvs) auto
  have "\<exists>cs'. stringify_members kvs = dquote # cs'"
    using kvs by (cases us) (auto simp: quoted_def)
  then obtain cs' where e: "stringify_members kvs = dquote # cs'"
    by blast
  show ?thesis
    using assms(2) by (simp add: e dquote_def)
qed

lemma parse_stringify_all:
  "\<forall>n r. cost v \<le> n \<longrightarrow> number_end r \<longrightarrow> parse_value n (stringify v @ r) = Some (v, r)"
  "vs \<noteq> [] \<longrightarrow>
     (\<forall>n r. costs vs \<le> n \<longrightarrow>
        parse_elements n (stringify_elements vs @ CHR '']'' # r) = Some (vs, r))"
  "kvs \<noteq> [] \<longrightarrow>
     (\<forall>n r. costs_members kvs \<le> n \<longrightarrow>
        parse_members n (stringify_members kvs @ CHR ''}'' # r) = Some (kvs, r))"
proof (induction v and vs and kvs rule: stringify_stringify_elements_stringify_members.induct)
  case 1
  show ?case
  proof (intro allI impI)
    fix n :: nat and r
    assume "cost JNull \<le> n"
    then obtain m where "n = Suc m" by (cases n) auto
    then show "parse_value n (stringify JNull @ r) = Some (JNull, r)"
      by (simp add: dquote_def)
  qed
next
  case (2 b)
  show ?case
  proof (intro allI impI)
    fix n :: nat and r
    assume "cost (JBool b) \<le> n"
    then obtain m where "n = Suc m" by (cases n) auto
    then show "parse_value n (stringify (JBool b) @ r) = Some (JBool b, r)"
      by (simp add: dquote_def)
  qed
next
  case (3 i)
  show ?case
  proof (intro allI impI)
    fix n :: nat and r
    assume "cost (JNum i) \<le> n" and e: "number_end r"
    then obtain m where "n = Suc m" by (cases n) auto
    then show "parse_value n (stringify (JNum i) @ r) = Some (JNum i, r)"
      using parse_value_number [OF e] by simp
  qed
next
  case (4 s)
  show ?case
  proof (intro allI impI)
    fix n :: nat and r
    assume "cost (JStr s) \<le> n"
    then obtain m where "n = Suc m" by (cases n) auto
    then show "parse_value n (stringify (JStr s) @ r) = Some (JStr s, r)"
      using parse_value_string by simp
  qed
next
  case (5 vs)
  show ?case
  proof (intro allI impI)
    fix n :: nat and r
    assume c: "cost (JArr vs) \<le> n"
    then obtain m where m: "n = Suc m" "costs vs \<le> m" by (cases n) auto
    show "parse_value n (stringify (JArr vs) @ r) = Some (JArr vs, r)"
    proof (cases "vs = []")
      case True
      with m show ?thesis by (simp add: dquote_def)
    next
      case False
      with 5 m have "parse_elements m (stringify_elements vs @ CHR '']'' # r) = Some (vs, r)"
        by blast
      with False m show ?thesis
        using parse_value_array by simp
    qed
  qed
next
  case (6 kvs)
  show ?case
  proof (intro allI impI)
    fix n :: nat and r
    assume c: "cost (JObj kvs) \<le> n"
    then obtain m where m: "n = Suc m" "costs_members kvs \<le> m" by (cases n) auto
    show "parse_value n (stringify (JObj kvs) @ r) = Some (JObj kvs, r)"
    proof (cases "kvs = []")
      case True
      with m show ?thesis by (simp add: dquote_def)
    next
      case False
      with 6 m have "parse_members m (stringify_members kvs @ CHR ''}'' # r) = Some (kvs, r)"
        by blast
      with False m show ?thesis
        using parse_value_object by simp
    qed
  qed
next
  case 7
  show ?case by simp
next
  case (8 v)
  show ?case
  proof (intro allI impI)
    fix n :: nat and r
    assume "costs [v] \<le> n"
    then obtain m where m: "n = Suc m" "cost v \<le> m" by (cases n) auto
    with 8 have "parse_value m (stringify v @ CHR '']'' # r) = Some (v, CHR '']'' # r)"
      using number_end_sep(2) by blast
    with m show "parse_elements n (stringify_elements [v] @ CHR '']'' # r) = Some ([v], r)"
      by simp
  qed
next
  case (9 v u vs)
  show ?case
  proof (intro allI impI)
    fix n :: nat and r
    assume "costs (v # u # vs) \<le> n"
    then obtain m where m: "n = Suc m" "cost v \<le> m" "costs (u # vs) \<le> m" by (cases n) auto
    let ?rest = "stringify_elements (u # vs) @ CHR '']'' # r"
    from 9(1) m have "parse_value m (stringify v @ CHR '','' # ?rest) = Some (v, CHR '','' # ?rest)"
      using number_end_sep(1) by blast
    moreover from 9(2) m have "parse_elements m ?rest = Some (u # vs, r)"
      by blast
    ultimately show "parse_elements n (stringify_elements (v # u # vs) @ CHR '']'' # r) =
        Some (v # u # vs, r)"
      using m by simp
  qed
next
  case 10
  show ?case by simp
next
  case (11 k v)
  show ?case
  proof (intro allI impI)
    fix n :: nat and r
    assume "costs_members [(k, v)] \<le> n"
    then obtain m where m: "n = Suc m" "cost v \<le> m" by (cases n) auto
    with 11 have "parse_value m (stringify v @ CHR ''}'' # r) = Some (v, CHR ''}'' # r)"
      using number_end_sep(3) by blast
    with m show "parse_members n (stringify_members [(k, v)] @ CHR ''}'' # r) = Some ([(k, v)], r)"
      by (simp add: quoted_def parse_string_escape)
  qed
next
  case (12 k v m' kvs)
  show ?case
  proof (intro allI impI)
    fix n :: nat and r
    assume "costs_members ((k, v) # m' # kvs) \<le> n"
    then obtain m where m: "n = Suc m" "cost v \<le> m" "costs_members (m' # kvs) \<le> m"
      by (cases n) auto
    let ?rest = "stringify_members (m' # kvs) @ CHR ''}'' # r"
    from 12(1) m have "parse_value m (stringify v @ CHR '','' # ?rest) = Some (v, CHR '','' # ?rest)"
      using number_end_sep(1) by blast
    moreover from 12(2) m have "parse_members m ?rest = Some (m' # kvs, r)"
      by blast
    ultimately show "parse_members n (stringify_members ((k, v) # m' # kvs) @ CHR ''}'' # r) =
        Some ((k, v) # m' # kvs, r)"
      using m by (simp add: quoted_def parse_string_escape)
  qed
qed


lemma digits_length: "0 < length (digits n)"
  using digits_nonempty [of n] by simp

lemma cost_le_length:
  "cost v \<le> length (stringify v)"
  "costs vs \<le> Suc (length (stringify_elements vs))"
  "costs_members kvs \<le> Suc (length (stringify_members kvs))"
proof (induction v and vs and kvs rule: stringify_stringify_elements_stringify_members.induct)
  case (3 i)
  show ?case
    using digits_length [of "nat i"] digits_length [of "nat (- i)"] by (simp add: Suc_leI)
qed (auto simp: quoted_def)

lemma parse_stringify: "parse (stringify v) = Some v"
proof -
  have "cost v \<le> Suc (length (stringify v))"
    using cost_le_length(1) [of v] by simp
  moreover have "number_end []"
    by (simp add: number_end_def)
  ultimately have "parse_value (Suc (length (stringify v))) (stringify v @ []) = Some (v, [])"
    using parse_stringify_all(1) [of v] by blast
  then show ?thesis
    by (simp add: parse_def del: parse_value.simps)
qed

lemma referenceCodec_round_trip:
  "JSON_parse referenceCodec (JSON_stringify referenceCodec v) = Some v"
  by (simp add: referenceCodec_def parse_stringify)

section \<open>The adapter: decoding and the round trip\<close>

lemma convertAll_append:
  "convertAll J (xs @ ys) =
     (case convertAll J xs of
        Inl err \<Rightarrow> Inl err
      | Inr ms \<Rightarrow> (case convertAll J ys of Inl err \<Rightarrow> Inl err | Inr ns \<Rightarrow> Inr (ms @ ns)))"
  by (induction xs) (auto split: sum.splits)

lemma parseAIMessageContent_malformed:
  "JSON_parse J content = None \<Longrightarrow> parseAIMessageContent J content = (Some content, JArr [])"
  by (simp add: parseAIMessageContent_def aiFallback_def)

lemma parseToolMessageContent_malformed:
  "JSON_parse J content = None \<Longrightarrow>
     parseToolMessageContent J content =
       JObj [(''toolCallId'', JStr ''unknown''), (''toolName'', JStr ''unknown''),
             (''toolInput'', JObj []), (''toolOutput'', JStr content)]"
  by (simp add: parseToolMessageContent_def)

lemma convert_ai_malformed:
  "JSON_parse J (e_content e) = None \<Longrightarrow> e_role e = Ai \<Longrightarrow>
     convertToLangChainMessage J e = Inr (NewAIMessage (Some (e_content e)) (e_name e) (JArr []))"
  by (simp add: convertToLangChainMessage_def parseAIMessageContent_malformed)

lemma convert_tool_malformed:
  "JSON_parse J (e_content e) = None \<Longrightarrow> e_role e = Tool \<Longrightarrow>
     convertToLangChainMessage J e =
       Inr (NewToolMessage (Some (JSON_stringify J (JStr (e_content e))))
              (Some (JStr ''unknown'')) (Some (JStr ''unknown'')))"
  by (simp add: convertToLangChainMessage_def parseToolMessageContent_malformed stringify_js_def)

text \<open>
  C6: an AI or tool entry whose content \<open>JSON.parse\<close> rejects is converted without an
  exception. \<open>parseAIMessageContent\<close> gives the raw content and no tool calls;
  \<open>parseToolMessageContent\<close> gives the identity \<open>unknown\<close> and the raw content as
  output (which the \<open>ToolMessage\<close> carries JSON-encoded). In \<open>getMessages\<close> the entry
  takes its place between the conversions of the entries before and after it: the
  whole conversion fails only where one of those fails.
\<close>

theorem malformed_entry_fallback:
  "JSON_parse J (e_content e) = None \<and> (e_role e = Ai \<or> e_role e = Tool)
     \<longrightarrow> parseAIMessageContent J (e_content e) = (Some (e_content e), JArr [])
       \<and> parseToolMessageContent J (e_content e) =
           JObj [(''toolCallId'', JStr ''unknown''), (''toolName'', JStr ''unknown''),
                 (''toolInput'', JObj []), (''toolOutput'', JStr (e_content e))]
       \<and> convertToLangChainMessage J e =
           Inr (if e_role e = Ai
                then NewAIMessage (Some (e_content e)) (e_name e) (JArr [])
                else NewToolMessage (Some (JSON_stringify J (JStr (e_content e))))
                       (Some (JStr ''unknown'')) (Some (JStr ''unknown'')))
       \<and> convertAll J (before @ e # after) =
           (case convertAll J before of
              Inl err \<Rightarrow> Inl err
            | Inr ms \<Rightarrow>
                (case convertAll J after of
                   Inl err \<Rightarrow> Inl err
                 | Inr ns \<Rightarrow>
                     Inr (ms @ (if e_role e = Ai
                                then NewAIMessage (Some (e_content e)) (e_name e) (JArr [])
                                else NewToolMessage (Some (JSON_stringify J (JStr (e_content e))))
                                       (Some (JStr ''unknown'')) (Some (JStr ''unknown''))) # ns)))"
proof (intro impI)
  assume a: "JSON_parse J (e_content e) = None \<and> (e_role e = Ai \<or> e_role e = Tool)"
  have c: "convertToLangChainMessage J e =
           Inr (if e_role e = Ai
                then NewAIMessage (Some (e_content e)) (e_name e) (JArr [])
                else NewToolMessage (Some (JSON_stringify J (JStr (e_content e))))
                       (Some (JStr ''unknown'')) (Some (JStr ''unknown'')))"
    using a convert_ai_malformed [of J e] convert_tool_malformed [of J e] by auto
  show "parseAIMessageContent J (e_content e) = (Some (e_content e), JArr [])
       \<and> parseToolMessageContent J (e_content e) =
           JObj [(''toolCallId'', JStr ''unknown''), (''toolName'', JStr ''unknown''),
                 (''toolInput'', JObj []), (''toolOutput'', JStr (e_content e))]
       \<and> convertToLangChainMessage J e =
           Inr (if e_role e = Ai
                then NewAIMessage (Some (e_content e)) (e_name e) (JArr [])
                else NewToolMessage (Some (JSON_stringify J (JStr (e_content e))))
                       (Some (JStr ''unknown'')) (Some (JStr ''unknown'')))
       \<and> convertAll J (before @ e # after) =
           (case convertAll J before of
              Inl err \<Rightarrow> Inl err
            | Inr ms \<Rightarrow>
                (case convertAll J after of
                   Inl err \<Rightarrow> Inl err
                 | Inr ns \<Rightarrow>
                     Inr (ms @ (if e_role e = Ai
                                then NewAIMessage (Some (e_content e)) (e_name e) (JArr [])
                                else NewToolMessage (Some (JSON_stringify J (JStr (e_content e))))
                                       (Some (JStr ''unknown'')) (Some (JStr ''unknown''))) # ns)))"
    using a
    by (simp add: parseAIMessageContent_malformed parseToolMessageContent_malformed c
        convertAll_append split: sum.splits)
qed


lemma not_json: "JSON_parse referenceCodec ''not json'' = None"
  by (simp add: referenceCodec_def parse_def dquote_def parse_number_def parse_digits_def is_digit_def)

lemma quoted_not_json:
  "JSON_stringify referenceCodec (JStr ''not json'') = [dquote] @ ''not json'' @ [dquote]"
  by (simp add: referenceCodec_def quoted_def dquote_def backslash_def)

theorem malformed_entry_fallback_witness:
  "JSON_parse referenceCodec ''not json'' = None
   \<and> convertAll referenceCodec
        [entryOf ''m1'' Human ''hi'' (Some ''User''),
         entryOf ''m2'' Ai ''not json'' (Some ''AI''),
         entryOf ''m3'' Tool ''not json'' (Some ''get_weather''),
         entryOf ''m4'' Human ''again'' (Some ''User'')] =
       Inr [NewHumanMessage ''hi'' (Some ''User''),
            NewAIMessage (Some ''not json'') (Some ''AI'') (JArr []),
            NewToolMessage (Some ([dquote] @ ''not json'' @ [dquote])) (Some (JStr ''unknown''))
              (Some (JStr ''unknown'')),
            NewHumanMessage ''again'' (Some ''User'')]"
proof -
  let ?J = referenceCodec
  let ?ai = "entryOf ''m2'' Ai ''not json'' (Some ''AI'')"
  let ?tool = "entryOf ''m3'' Tool ''not json'' (Some ''get_weather'')"
  let ?h1 = "entryOf ''m1'' Human ''hi'' (Some ''User'')"
  let ?h2 = "entryOf ''m4'' Human ''again'' (Some ''User'')"
  have a: "JSON_parse ?J (e_content ?ai) = None \<and> (e_role ?ai = Ai \<or> e_role ?ai = Tool)"
    by (simp add: entryOf_def not_json)
  have b: "JSON_parse ?J (e_content ?tool) = None \<and> (e_role ?tool = Ai \<or> e_role ?tool = Tool)"
    by (simp add: entryOf_def not_json)
  note t1 = malformed_entry_fallback [of ?J ?ai "[?h1]" "[?tool, ?h2]", THEN mp, OF a]
  note t2 = malformed_entry_fallback [of ?J ?tool "[]" "[?h2]", THEN mp, OF b]
  have h: "convertAll ?J [?h1] = Inr [NewHumanMessage ''hi'' (Some ''User'')]"
    "convertAll ?J [?h2] = Inr [NewHumanMessage ''again'' (Some ''User'')]"
    by (simp_all add: convertToLangChainMessage_def entryOf_def)
  have "convertAll ?J [?tool, ?h2] =
      Inr [NewToolMessage (Some ([dquote] @ ''not json'' @ [dquote])) (Some (JStr ''unknown''))
             (Some (JStr ''unknown'')),
           NewHumanMessage ''again'' (Some ''User'')]"
    using t2 [THEN conjunct2, THEN conjunct2, THEN conjunct2] h(2) quoted_not_json
    by (simp add: entryOf_def)
  then show ?thesis
    using t1 [THEN conjunct2, THEN conjunct2, THEN conjunct2] h(1) not_json
    by (simp add: entryOf_def)
qed

text \<open>
  Content that parses, but not to an object, is no parse failure. A tool entry whose
  content is the JSON text \<open>null\<close> makes the property read after
  \<open>parseToolMessageContent\<close>, which is outside its \<open>try\<close>, raise.
\<close>

lemma convert_tool_null:
  "JSON_parse J (e_content e) = Some JNull \<Longrightarrow> e_role e = Tool \<Longrightarrow>
     convertToLangChainMessage J e = Inl (TypeError ''Cannot read properties of null'')"
  by (simp add: convertToLangChainMessage_def parseToolMessageContent_def)

lemma convert_stored_ai:
  assumes "JSON_parse J (JSON_stringify J (storedAIMessage c tc)) = Some (storedAIMessage c tc)"
    and "e_role e = Ai" and "e_content e = JSON_stringify J (storedAIMessage c tc)"
  shows "convertToLangChainMessage J e =
     Inr (NewAIMessage (Some c) (e_name e) (JArr (case tc of None \<Rightarrow> [] | Some t \<Rightarrow> t)))"
  using assms
  by (simp add: convertToLangChainMessage_def parseAIMessageContent_def storedAIMessage_def
      object_literal_def)

lemma addMessage_ai_turn:
  "addMessage J (turnService J h) (AIMessage (JStr c) nm tc) w =
     (Inr (), addAIMessage_turn (JSON_stringify J (storedAIMessage c tc)) h w)"
  by (simp add: addMessage_def turnService_def messageContent_def)

lemma convertAll_filter_snoc:
  assumes "convertToLangChainMessage J (toEntry row) = Inr a"
  shows "convertAll J (map toEntry (filter P (mem @ [row]))) =
     (if P row
      then (case convertAll J (map toEntry (filter P mem)) of
              Inl err \<Rightarrow> Inl err
            | Inr ms \<Rightarrow> Inr (ms @ [a]))
      else convertAll J (map toEntry (filter P mem)))"
  using assms by (simp add: convertAll_append split: sum.splits)

lemma getMemory_turn_fst:
  "fst (getMemory_turn h w) =
     (case th_providedTurnId h of
        None \<Rightarrow>
          Inr (map toEntry (filter (\<lambda>r. mem_sessionId r = th_sessionId h \<and>
                                        mem_memoryNodeId r = th_memoryNodeId h) (memory w)))
      | Some t \<Rightarrow>
          (case buildMessageHistory
                  (filter (\<lambda>m. msg_sessionId m = th_sessionId h) (messages w)) None of
             Inl e \<Rightarrow> Inl e
           | Inr chain \<Rightarrow>
               Inr (map toEntry (filter (\<lambda>r. mem_sessionId r = th_sessionId h \<and>
                                             mem_memoryNodeId r = th_memoryNodeId h \<and>
                                             mem_key r \<in> set (extractTurnIds chain)) (memory w)))))"
  by (simp add: getMemory_turn_def getManyBySessionId_def getAllMemoryForNode_def
      getMemoryByTurnIds_def getMemoryByKeys_def logged_def buildMessageHistory_Nil
      extractTurnIds_Nil Let_def split: option.splits sum.splits)

lemma getMessages_turn_fst:
  "fst (getMessages J (turnService J h) w) =
     (case fst (getMemory_turn h w) of Inl e \<Rightarrow> Inl e | Inr es \<Rightarrow> convertAll J es)"
  by (simp add: getMessages_def turnService_def split: prod.splits sum.splits)

lemma addAIMessage_turn_tables:
  "memory (addAIMessage_turn x h w) =
     memory w @ [\<lparr>mem_id = uuid_seq w (uuid_used w), mem_sessionId = th_sessionId h,
                  mem_memoryNodeId = th_memoryNodeId h, mem_key = th_turnId h, mem_role = Ai,
                  mem_content = x, mem_name = Some ''AI'', mem_createdAt = clock w\<rparr>]"
  "messages (addAIMessage_turn x h w) = messages w"
  by (simp_all add: addAIMessage_turn_def createMemoryEntry_def uuid_def logged_def)

lemma turn_read_after_write:
  assumes law: "JSON_parse J (JSON_stringify J (storedAIMessage c tc)) = Some (storedAIMessage c tc)"
    and same: "th_sessionId h2 = th_sessionId h" "th_memoryNodeId h2 = th_memoryNodeId h"
  shows "fst (getMessages J (turnService J h2)
                ((snd (addMessage J (turnService J h) (AIMessage (JStr c) nm tc) w))
                   \<lparr>messages := ms\<rparr>)) =
     (if th_providedTurnId h2 = None \<or>
         (case buildMessageHistory (filter (\<lambda>m. msg_sessionId m = th_sessionId h) ms) None of
            Inl e \<Rightarrow> False
          | Inr chain \<Rightarrow> th_turnId h \<in> set (extractTurnIds chain))
      then (case fst (getMessages J (turnService J h2) (w\<lparr>messages := ms\<rparr>)) of
              Inl err \<Rightarrow> Inl err
            | Inr old \<Rightarrow>
                Inr (old @ [NewAIMessage (Some c) (Some ''AI'')
                              (JArr (case tc of None \<Rightarrow> [] | Some t \<Rightarrow> t))]))
      else fst (getMessages J (turnService J h2) (w\<lparr>messages := ms\<rparr>)))"
proof -
  let ?x = "JSON_stringify J (storedAIMessage c tc)"
  let ?row = "\<lparr>mem_id = uuid_seq w (uuid_used w), mem_sessionId = th_sessionId h,
      mem_memoryNodeId = th_memoryNodeId h, mem_key = th_turnId h, mem_role = Ai,
      mem_content = ?x, mem_name = Some ''AI'', mem_createdAt = clock w\<rparr>"
  have conv: "convertToLangChainMessage J (toEntry ?row) =
      Inr (NewAIMessage (Some c) (Some ''AI'') (JArr (case tc of None \<Rightarrow> [] | Some t \<Rightarrow> t)))"
    using convert_stored_ai [OF law, of "toEntry ?row"] by (simp add: toEntry_def)
  let ?W' = "(snd (addMessage J (turnService J h) (AIMessage (JStr c) nm tc) w))\<lparr>messages := ms\<rparr>"
  let ?W = "w\<lparr>messages := ms\<rparr>"
  let ?A = "NewAIMessage (Some c) (Some ''AI'') (JArr (case tc of None \<Rightarrow> [] | Some t \<Rightarrow> t))"
  have tables: "memory ?W' = memory w @ [?row]" "messages ?W' = ms"
    "memory ?W = memory w" "messages ?W = ms"
    by (simp_all add: addMessage_ai_turn addAIMessage_turn_tables)
  show ?thesis
  proof (cases "th_providedTurnId h2")
    case None
    let ?P = "\<lambda>r. mem_sessionId r = th_sessionId h2 \<and> mem_memoryNodeId r = th_memoryNodeId h2"
    have after: "fst (getMessages J (turnService J h2) ?W') =
        convertAll J (map toEntry (filter ?P (memory w @ [?row])))"
      using None by (simp only: getMessages_turn_fst getMemory_turn_fst tables) simp
    have before: "fst (getMessages J (turnService J h2) ?W) =
        convertAll J (map toEntry (filter ?P (memory w)))"
      using None by (simp only: getMessages_turn_fst getMemory_turn_fst tables) simp
    have "convertAll J (map toEntry (filter ?P (memory w @ [?row]))) =
        (case convertAll J (map toEntry (filter ?P (memory w))) of
           Inl err \<Rightarrow> Inl err
         | Inr old \<Rightarrow> Inr (old @ [?A]))"
      using same by (subst convertAll_filter_snoc [OF conv]) simp
    then show ?thesis
      using None by (simp only: after before) simp
  next
    case (Some t2)
    show ?thesis
    proof (cases "buildMessageHistory (filter (\<lambda>m. msg_sessionId m = th_sessionId h) ms) None")
      case (Inl e)
      have "fst (getMessages J (turnService J h2) ?W') = Inl e"
        "fst (getMessages J (turnService J h2) ?W) = Inl e"
        using Some Inl same
        by (simp_all only: getMessages_turn_fst getMemory_turn_fst tables) simp_all
      then show ?thesis
        using Some Inl by simp
    next
      case (Inr chain)
      let ?P = "\<lambda>r. mem_sessionId r = th_sessionId h2 \<and> mem_memoryNodeId r = th_memoryNodeId h2
          \<and> mem_key r \<in> set (extractTurnIds chain)"
      have after: "fst (getMessages J (turnService J h2) ?W') =
          convertAll J (map toEntry (filter ?P (memory w @ [?row])))"
        using Some Inr same by (simp only: getMessages_turn_fst getMemory_turn_fst tables) simp
      have before: "fst (getMessages J (turnService J h2) ?W) =
          convertAll J (map toEntry (filter ?P (memory w)))"
        using Some Inr same by (simp only: getMessages_turn_fst getMemory_turn_fst tables) simp
      have "convertAll J (map toEntry (filter ?P (memory w @ [?row]))) =
          (if th_turnId h \<in> set (extractTurnIds chain)
           then (case convertAll J (map toEntry (filter ?P (memory w))) of
                   Inl err \<Rightarrow> Inl err
                 | Inr old \<Rightarrow> Inr (old @ [?A]))
           else convertAll J (map toEntry (filter ?P (memory w))))"
        using same by (subst convertAll_filter_snoc [OF conv]) simp
      then show ?thesis
        using Some Inr by (simp only: after before) simp
    qed
  qed
qed

lemma turn_read_after_write_same:
  assumes law: "JSON_parse J (JSON_stringify J (storedAIMessage c tc)) = Some (storedAIMessage c tc)"
  shows "fst (getMessages J (turnService J h)
                (snd (addMessage J (turnService J h) (AIMessage (JStr c) nm tc) w))) =
     (if th_providedTurnId h = None \<or>
         (case buildMessageHistory
                 (filter (\<lambda>m. msg_sessionId m = th_sessionId h) (messages w)) None of
            Inl e \<Rightarrow> False
          | Inr chain \<Rightarrow> th_turnId h \<in> set (extractTurnIds chain))
      then (case fst (getMessages J (turnService J h) w) of
              Inl err \<Rightarrow> Inl err
            | Inr old \<Rightarrow>
                Inr (old @ [NewAIMessage (Some c) (Some ''AI'')
                              (JArr (case tc of None \<Rightarrow> [] | Some t \<Rightarrow> t))]))
      else fst (getMessages J (turnService J h) w))"
proof -
  have "(snd (addMessage J (turnService J h) (AIMessage (JStr c) nm tc) w))
          \<lparr>messages := messages w\<rparr> =
        snd (addMessage J (turnService J h) (AIMessage (JStr c) nm tc) w)"
    by (simp add: addMessage_ai_turn addAIMessage_turn_def createMemoryEntry_def uuid_def logged_def)
  then show ?thesis
    using turn_read_after_write [OF law, where ?h2.0 = h and h = h and nm = nm and w = w
        and ms = "messages w"] by simp
qed












text \<open>
  With the reference codec the round trip needs no assumption on the codec: it holds
  for every content string and every list of tool calls.
\<close>

lemma reference_codec_ai_message:
  "fst (getMessages referenceCodec (turnService referenceCodec h)
          (snd (addMessage referenceCodec (turnService referenceCodec h)
                  (AIMessage (JStr c) nm tc) w))) =
     (if th_providedTurnId h = None \<or>
         (case buildMessageHistory
                 (filter (\<lambda>m. msg_sessionId m = th_sessionId h) (messages w)) None of
            Inl e \<Rightarrow> False
          | Inr chain \<Rightarrow> th_turnId h \<in> set (extractTurnIds chain))
      then (case fst (getMessages referenceCodec (turnService referenceCodec h) w) of
              Inl err \<Rightarrow> Inl err
            | Inr old \<Rightarrow>
                Inr (old @ [NewAIMessage (Some c) (Some ''AI'')
                              (JArr (case tc of None \<Rightarrow> [] | Some t \<Rightarrow> t))]))
      else fst (getMessages referenceCodec (turnService referenceCodec h) w))"
  by (rule turn_read_after_write_same [OF referenceCodec_round_trip])






section \<open>The active path: termination and the cycle check\<close>

lemma cycleReachable_step:
  assumes "cycleReachable idx h"
  shows "\<exists>m p. idx h = Some m \<and> msg_parentId m = Some p \<and> cycleReachable idx p"
proof -
  from assms obtain c where hc: "(h, c) \<in> (parentRel idx)\<^sup>*" and cc: "(c, c) \<in> (parentRel idx)\<^sup>+"
    by (auto simp: cycleReachable_def)
  have "\<exists>p. (h, p) \<in> parentRel idx \<and> (p, c) \<in> (parentRel idx)\<^sup>*"
  proof (cases "h = c")
    case True
    with cc show ?thesis by (auto dest: tranclD)
  next
    case False
    with hc show ?thesis by (auto elim: converse_rtranclE)
  qed
  then obtain p where hp: "(h, p) \<in> parentRel idx" and pc: "(p, c) \<in> (parentRel idx)\<^sup>*"
    by blast
  from pc cc have "cycleReachable idx p"
    by (auto simp: cycleReachable_def)
  with hp show ?thesis
    by (auto simp: parentRel_def)
qed

lemma walkParents_cycle:
  "cycleReachable idx h \<Longrightarrow> walkParents n idx (Some h) = Inl cycleError"
proof (induction n arbitrary: h)
  case 0
  then show ?case
    using cycleReachable_step [of idx h] by (auto simp: cycleError_def)
next
  case (Suc n)
  from cycleReachable_step [OF Suc.prems] obtain m p where
    "idx h = Some m" "msg_parentId m = Some p" "cycleReachable idx p"
    by blast
  with Suc.IH [of p] show ?case by simp
qed

lemma walkParents_Inl_chain:
  "walkParents n idx (Some h) = Inl e \<Longrightarrow>
     \<exists>xs. length xs = n \<and> successively (\<lambda>a b. (a, b) \<in> parentRel idx) (h # xs) \<and>
          set (h # xs) \<subseteq> dom idx"
proof (induction n arbitrary: h)
  case 0
  then have "h \<in> dom idx"
    by (auto split: option.splits)
  then show ?case by simp
next
  case (Suc n)
  from Suc.prems obtain m where m: "idx h = Some m"
    by (auto split: option.splits)
  with Suc.prems obtain p where p: "msg_parentId m = Some p"
    and rec: "walkParents n idx (Some p) = Inl e"
    by (cases "msg_parentId m") (auto split: sum.splits)
  from Suc.IH [OF rec] obtain xs where xs: "length xs = n"
    "successively (\<lambda>a b. (a, b) \<in> parentRel idx) (p # xs)" "set (p # xs) \<subseteq> dom idx"
    by blast
  from xs(3) have "p \<in> dom idx" by simp
  with m p have "(h, p) \<in> parentRel idx"
    by (auto simp: parentRel_def)
  with xs m have "length (p # xs) = Suc n \<and>
      successively (\<lambda>a b. (a, b) \<in> parentRel idx) (h # p # xs) \<and> set (h # p # xs) \<subseteq> dom idx"
    by auto
  then show ?case by blast
qed

lemma chain_trancl:
  "successively (\<lambda>a b. (a, b) \<in> r) (x # ys @ [z]) \<Longrightarrow> (x, z) \<in> r\<^sup>+"
proof (induction ys arbitrary: x)
  case Nil
  then show ?case by auto
next
  case (Cons y ys)
  then have "(x, y) \<in> r" and "(y, z) \<in> r\<^sup>+"
    by auto
  then show ?case by auto
qed

lemma chain_repeat_cycle:
  assumes "successively (\<lambda>a b. (a, b) \<in> r) xs" and "\<not> distinct xs"
  shows "\<exists>y. (y, y) \<in> r\<^sup>+"
proof -
  from assms(2) obtain as y bs cs where xs: "xs = as @ [y] @ bs @ [y] @ cs"
    using not_distinct_decomp by blast
  have "xs = as @ ((y # bs @ [y]) @ cs)"
    by (simp add: xs)
  with assms(1) have "successively (\<lambda>a b. (a, b) \<in> r) (y # bs @ [y])"
    by (simp only: successively_append_iff)
  then have "(y, y) \<in> r\<^sup>+"
    by (rule chain_trancl)
  then show ?thesis ..
qed

lemma walkParents_Inl_not_acyclic:
  assumes "walkParents n idx (Some h) = Inl e" and "finite (dom idx)" and "card (dom idx) \<le> n"
  shows "\<not> acyclic (parentRel idx)"
proof -
  from walkParents_Inl_chain [OF assms(1)] obtain xs where xs: "length xs = n"
    "successively (\<lambda>a b. (a, b) \<in> parentRel idx) (h # xs)" "set (h # xs) \<subseteq> dom idx"
    by blast
  have "\<not> distinct (h # xs)"
  proof
    assume "distinct (h # xs)"
    then have "card (set (h # xs)) = Suc n"
      using xs(1) distinct_card [of "h # xs"] by simp
    moreover have "card (set (h # xs)) \<le> card (dom idx)"
      using xs(3) assms(2) by (intro card_mono)
    ultimately show False
      using assms(3) by simp
  qed
  with xs(2) obtain y where "(y, y) \<in> (parentRel idx)\<^sup>+"
    using chain_repeat_cycle by blast
  then show ?thesis
    by (auto simp: acyclic_def)
qed

lemma messageIndex_dom: "finite (dom (messageIndex msgs)) \<and> card (dom (messageIndex msgs)) \<le> length msgs"
proof -
  have d: "dom (messageIndex msgs) = msg_id ` set msgs"
    by (auto simp: messageIndex_def dom_map_of_conv_image_fst image_image)
  have "card (msg_id ` set msgs) \<le> card (set msgs)"
    by (intro card_image_le) simp
  also have "\<dots> \<le> length msgs"
    by (rule card_length)
  finally show ?thesis
    by (simp add: d)
qed

lemma messageIndex_id: "messageIndex msgs i = Some m \<Longrightarrow> msg_id m = i"
  by (auto simp: messageIndex_def dest: map_of_SomeD)

lemma walkParents_chain: "walkParents n idx s = Inr ms \<Longrightarrow> parentChain idx s ms"
proof (induction n arbitrary: s ms)
  case 0
  then show ?case
    by (cases s) (auto split: option.splits)
next
  case (Suc n)
  show ?case
  proof (cases s)
    case None
    with Suc.prems show ?thesis by simp
  next
    case (Some i)
    show ?thesis
    proof (cases "idx i")
      case None
      with Some Suc.prems show ?thesis by simp
    next
      case (Some m)
      with \<open>s = Some i\<close> Suc.prems obtain ms' where
        "walkParents n idx (msg_parentId m) = Inr ms'" "ms = m # ms'"
        by (auto split: sum.splits)
      with Suc.IH [of "msg_parentId m" ms'] Some \<open>s = Some i\<close> show ?thesis
        by simp
    qed
  qed
qed

lemma walkParents_length: "walkParents n idx s = Inr ms \<Longrightarrow> length ms \<le> n"
proof (induction n arbitrary: s ms)
  case 0
  then show ?case
    by (cases s) (auto split: option.splits)
next
  case (Suc n)
  then show ?case
    by (cases s) (fastforce split: option.splits sum.splits)+
qed

lemma parentChain_unique:
  "parentChain idx s ms \<Longrightarrow> parentChain idx s ms' \<Longrightarrow> ms = ms'"
proof (induction ms arbitrary: s ms')
  case Nil
  then show ?case
    by (cases ms'; cases s) auto
next
  case (Cons m ms)
  then show ?case
    by (cases ms'; cases s) auto
qed

lemma parentChain_suffix:
  "parentChain idx s (as @ m # cs) \<Longrightarrow> \<exists>i. idx i = Some m \<and> parentChain idx (msg_parentId m) cs"
proof (induction as arbitrary: s)
  case Nil
  then show ?case
    by (cases s) auto
next
  case (Cons a as)
  then show ?case
    by (cases s) auto
qed

lemma parentChain_distinct:
  assumes ix: "\<And>i m. idx i = Some m \<Longrightarrow> msg_id m = i"
  shows "parentChain idx s ms \<Longrightarrow> distinct (map msg_id ms)"
proof (induction ms arbitrary: s)
  case Nil
  then show ?case by simp
next
  case (Cons m ms)
  from Cons.prems obtain i where i: "s = Some i" "idx i = Some m"
    and rest: "parentChain idx (msg_parentId m) ms"
    by (cases s) auto
  have "msg_id m \<notin> msg_id ` set ms"
  proof
    assume "msg_id m \<in> msg_id ` set ms"
    then obtain m' where m': "m' \<in> set ms" "msg_id m' = msg_id m"
      by auto
    then obtain as cs where split: "ms = as @ m' # cs"
      by (auto dest: split_list)
    with rest obtain j where j: "idx j = Some m'" "parentChain idx (msg_parentId m') cs"
      using parentChain_suffix by blast
    from j(1) ix have "msg_id m' = j" by blast
    moreover from i(2) ix have "msg_id m = i" by blast
    ultimately have "j = i"
      using m'(2) by metis
    with i(2) j(1) have "m' = m"
      by simp
    with j(2) rest have "ms = cs"
      using parentChain_unique by blast
    with split show False by simp
  qed
  with Cons.IH [OF rest] show ?case by simp
qed


lemma parentChain_members:
  "parentChain idx s ms \<Longrightarrow> m \<in> set ms \<Longrightarrow> \<exists>i. idx i = Some m"
proof (induction ms arbitrary: s)
  case Nil
  then show ?case by simp
next
  case (Cons a ms)
  then show ?case
    by (cases s) auto
qed

lemma messageIndex_member: "messageIndex msgs i = Some m \<Longrightarrow> m \<in> set msgs"
  by (auto simp: messageIndex_def dest: map_of_SomeD)

lemma buildMessageHistory_forest:
  assumes "acyclic (parentRel (messageIndex msgs))"
  shows "\<exists>path. buildMessageHistory msgs head = Inr path"
proof (cases "chosenHead msgs head")
  case None
  then show ?thesis
    by (simp add: buildMessageHistory_def)
next
  case (Some h)
  have "\<And>e. walkParents (length msgs) (messageIndex msgs) (Some h) \<noteq> Inl e"
    using walkParents_Inl_not_acyclic [of "length msgs" "messageIndex msgs" h] messageIndex_dom [of msgs]
      assms by blast
  then obtain ms where "walkParents (length msgs) (messageIndex msgs) (Some h) = Inr ms"
    by (cases "walkParents (length msgs) (messageIndex msgs) (Some h)") auto
  with Some show ?thesis
    by (simp add: buildMessageHistory_def)
qed

lemma buildMessageHistory_path:
  assumes "buildMessageHistory msgs head = Inr path"
  shows "distinct (map msg_id path) \<and> length path \<le> length msgs \<and> set path \<subseteq> set msgs \<and>
         parentChain (messageIndex msgs) (chosenHead msgs head) (rev path)"
proof -
  from assms obtain ms where ms:
    "walkParents (length msgs) (messageIndex msgs) (chosenHead msgs head) = Inr ms" "path = rev ms"
    by (auto simp: buildMessageHistory_def split: sum.splits)
  note chain = walkParents_chain [OF ms(1)]
  have "distinct (map msg_id ms)"
    using chain messageIndex_id by (rule parentChain_distinct [rotated])
  moreover have "length ms \<le> length msgs"
    using ms(1) by (rule walkParents_length)
  moreover have "set ms \<subseteq> set msgs"
    using parentChain_members [OF chain] messageIndex_member by blast
  ultimately show ?thesis
    using chain ms(2) by (simp add: distinct_rev rev_map [symmetric])
qed

lemma buildMessageHistory_cycle:
  assumes "chosenHead msgs head = Some h" and "cycleReachable (messageIndex msgs) h"
  shows "buildMessageHistory msgs head = Inl cycleError"
  using assms walkParents_cycle [of "messageIndex msgs" h "length msgs"]
  by (simp add: buildMessageHistory_def)

text \<open>
  C4, for \<open>buildMessageHistory\<close> as the spec describes it. When the messages form a
  forest, the resolution from the chosen head returns a path. Whenever it returns a
  path, the path visits no message twice, holds at most as many messages as the
  list and only messages of the list, and read from the head it is the chain of
  parent links. When a cycle of parent links is reachable from the chosen head, the
  resolution fails with the structural error. (The function is total: the walk is
  bounded by the number of messages.)
\<close>

theorem buildMessageHistory_terminates:
  "(acyclic (parentRel (messageIndex msgs)) \<longrightarrow> (\<exists>path. buildMessageHistory msgs head = Inr path))
   \<and> (buildMessageHistory msgs head = Inr visited
        \<longrightarrow> distinct (map msg_id visited) \<and> length visited \<le> length msgs \<and>
            set visited \<subseteq> set msgs \<and>
            parentChain (messageIndex msgs) (chosenHead msgs head) (rev visited))
   \<and> (chosenHead msgs head = Some h \<and> cycleReachable (messageIndex msgs) h
        \<longrightarrow> buildMessageHistory msgs head = Inl cycleError)"
  using buildMessageHistory_forest [of msgs head] buildMessageHistory_path [of msgs head visited]
    buildMessageHistory_cycle [of msgs head h]
  by blast

lemma twoTurns_acyclic: "acyclic (parentRel (messageIndex [humanMsg1, aiMsg1, humanMsg2, aiMsg2]))"
proof (rule acyclicI_order)
  let ?idx = "messageIndex [humanMsg1, aiMsg1, humanMsg2, aiMsg2]"
  let ?age = "\<lambda>i. case ?idx i of None \<Rightarrow> 0 | Some m \<Rightarrow> msg_createdAt m"
  fix a b
  assume "(a, b) \<in> parentRel ?idx"
  then show "?age b < ?age a"
    by (auto simp: parentRel_def messageIndex_def example_defs split: if_splits)
qed

lemma cyclicMessages_cycle: "cycleReachable (messageIndex cyclicMessages) ''h2''"
proof -
  let ?r = "parentRel (messageIndex cyclicMessages)"
  have e: "(''h2'', ''a1'') \<in> ?r" "(''a1'', ''h1'') \<in> ?r" "(''h1'', ''a1'') \<in> ?r"
    by (simp_all add: parentRel_def messageIndex_def cyclicMessages_def example_defs dom_def)
  from e(2,3) have "(''a1'', ''a1'') \<in> ?r\<^sup>+"
    by (meson trancl.simps)
  moreover from e(1) have "(''h2'', ''a1'') \<in> ?r\<^sup>*"
    by blast
  ultimately show ?thesis
    by (auto simp: cycleReachable_def)
qed

theorem buildMessageHistory_terminates_witness:
  "buildMessageHistory [humanMsg1, aiMsg1, humanMsg2, aiMsg2] None =
     Inr [humanMsg1, aiMsg1, humanMsg2, aiMsg2]
   \<and> distinct (map msg_id [humanMsg1, aiMsg1, humanMsg2, aiMsg2])
   \<and> buildMessageHistory cyclicMessages (Some ''h2'') = Inl cycleError"
proof -
  let ?msgs = "[humanMsg1, aiMsg1, humanMsg2, aiMsg2]"
  note inst = buildMessageHistory_terminates [of ?msgs None ?msgs]
  note cyc = buildMessageHistory_terminates [of cyclicMessages "Some ''h2''" _ "''h2''"]
  have run: "buildMessageHistory ?msgs None = Inr ?msgs"
    by (simp add: buildMessageHistory_def chosenHead_def messageIndex_def example_defs)
  have "\<exists>path. buildMessageHistory ?msgs None = Inr path"
    using inst [THEN conjunct1, THEN mp, OF twoTurns_acyclic] .
  moreover have "distinct (map msg_id ?msgs)"
    using inst [THEN conjunct2, THEN conjunct1, THEN mp, OF run] by blast
  moreover have "buildMessageHistory cyclicMessages (Some ''h2'') = Inl cycleError"
    using cyc [THEN conjunct2, THEN conjunct2, THEN mp] cyclicMessages_cycle
    by (simp add: chosenHead_def)
  ultimately show ?thesis
    using run by simp
qed


end
